theory Spec2Isabelle
  imports Main "HOL-Library.Sublist" "HOL-Library.Monad_Syntax"
begin

section \<open>Strings of the platform\<close>

text \<open>
  The proxy of \<^verbatim>\<open>main.ts\<close> is a short composition of string operations of
  ECMAScript and of the URL, Headers, Request and Response classes of the Fetch
  platform.  A string is modelled as a list of code units.  Isabelle's \<^typ>\<open>char\<close> has
  256 values, which are exactly the code units a header value can hold (a header value is
  a byte string); text with code units above 255 is outside the model.  A result of type
  \<^typ>\<open>'a option\<close> is \<^term>\<open>None\<close> where the platform throws: \<^verbatim>\<open>new URL\<close> on a
  string that is no URL, \<^verbatim>\<open>Headers.set\<close> and \<^verbatim>\<open>Headers.append\<close> on a value that
  cannot be sent.
\<close>

type_synonym bytes = string

subsection \<open>\<^verbatim>\<open>startsWith\<close>, \<^verbatim>\<open>split\<close>, \<^verbatim>\<open>slice\<close>, \<^verbatim>\<open>join\<close>, \<^verbatim>\<open>trimStart\<close>\<close>

definition startsWith :: "string \<Rightarrow> string \<Rightarrow> bool" where
  "startsWith s searchString = prefix searchString s"

text \<open>
  \<^verbatim>\<open>s.split(sep)\<close> for a separator of one code unit (the source splits on
  \<^verbatim>\<open>","\<close> and on \<^verbatim>\<open>"."\<close>): the pieces between the separators, at least one.
\<close>

fun split :: "string \<Rightarrow> char \<Rightarrow> string list" where
  "split [] sep = [[]]"
| "split (c # s) sep =
     (if c = sep then [] # split s sep
      else (case split s sep of [] \<Rightarrow> [[c]] | piece # pieces \<Rightarrow> (c # piece) # pieces))"

text \<open>\<^verbatim>\<open>xs.slice(-n)\<close>: the last \<open>n\<close> elements, all of them when there are fewer.\<close>

definition slice_last :: "nat \<Rightarrow> 'a list \<Rightarrow> 'a list" where
  "slice_last n xs = drop (length xs - n) xs"

fun join :: "string list \<Rightarrow> string \<Rightarrow> string" where
  "join [] sep = []"
| "join [x] sep = x"
| "join (x # y # xs) sep = x @ sep @ join (y # xs) sep"

text \<open>
  White space and line terminators of ECMAScript among the code units below 256:
  TAB, LF, VT, FF, CR, SP and NBSP.
\<close>

definition js_whitespace :: "char \<Rightarrow> bool" where
  "js_whitespace c = (c \<in> set [CHR 0x09, CHR 0x0A, CHR 0x0B, CHR 0x0C, CHR 0x0D, CHR 0x20, CHR 0xA0])"

definition trimStart :: "string \<Rightarrow> string" where
  "trimStart s = dropWhile js_whitespace s"

subsection \<open>\<^verbatim>\<open>replace\<close> and \<^verbatim>\<open>replaceAll\<close> with a string pattern\<close>

text \<open>
  \<open>indexOf p s\<close> is the least index at which \<open>p\<close> starts in \<open>s\<close>.
  \<open>StringIndexOf\<close> is the abstract operation of ECMAScript: the least index not
  below \<open>fromIndex\<close>; the empty pattern is found at \<open>fromIndex\<close> itself as long as
  that is at most the length.
\<close>

fun indexOf :: "string \<Rightarrow> string \<Rightarrow> nat option" where
  "indexOf p [] = (if p = [] then Some 0 else None)"
| "indexOf p (c # s) = (if prefix p (c # s) then Some 0 else map_option Suc (indexOf p s))"

definition StringIndexOf :: "string \<Rightarrow> string \<Rightarrow> nat \<Rightarrow> nat option" where
  "StringIndexOf s searchValue fromIndex =
     (if fromIndex \<le> length s
      then map_option (\<lambda>i. fromIndex + i) (indexOf searchValue (drop fromIndex s))
      else None)"

text \<open>
  \<open>GetSubstitution\<close> expands the replacement template of \<^verbatim>\<open>replace\<close> and
  \<^verbatim>\<open>replaceAll\<close>.  With a string pattern there are no captures, so only four
  references are special: \<^verbatim>\<open>$$\<close> (a dollar sign), \<^verbatim>\<open>$&\<close> (the match), the dollar
  sign followed by a backquote (the text before the match) and \<^verbatim>\<open>$'\<close> (the text after
  it).  A dollar sign followed by digits or by \<^verbatim>\<open><\<close> is copied as it stands.
\<close>

fun GetSubstitution :: "string \<Rightarrow> string \<Rightarrow> nat \<Rightarrow> string \<Rightarrow> string" where
  "GetSubstitution matched str position [] = []"
| "GetSubstitution matched str position [c] = [c]"
| "GetSubstitution matched str position (c # d # template) =
     (if c = CHR 0x24 \<and> d = CHR 0x24 then
        CHR 0x24 # GetSubstitution matched str position template
      else if c = CHR 0x24 \<and> d = CHR 0x60 then
        take position str @ GetSubstitution matched str position template
      else if c = CHR 0x24 \<and> d = CHR 0x26 then
        matched @ GetSubstitution matched str position template
      else if c = CHR 0x24 \<and> d = CHR 0x27 then
        drop (min (position + length matched) (length str)) str
          @ GetSubstitution matched str position template
      else c # GetSubstitution matched str position (d # template))"

text \<open>\<^verbatim>\<open>s.replace(p, r)\<close>: the first occurrence only.\<close>

definition replace :: "string \<Rightarrow> string \<Rightarrow> string \<Rightarrow> string" where
  "replace s searchValue replaceValue =
     (case StringIndexOf s searchValue 0 of
        None \<Rightarrow> s
      | Some pos \<Rightarrow>
          take pos s @ GetSubstitution searchValue s pos replaceValue
            @ drop (pos + length searchValue) s)"

text \<open>
  \<^verbatim>\<open>s.replaceAll(p, r)\<close>: the positions of the matches are collected first, each search
  starting \<open>max 1 (length p)\<close> after the last match, and the result is then put
  together from the text between the matches and the expanded replacements.
\<close>

function matchPositions :: "string \<Rightarrow> string \<Rightarrow> nat \<Rightarrow> nat list" where
  "matchPositions s searchValue fromIndex =
     (case StringIndexOf s searchValue fromIndex of
        None \<Rightarrow> []
      | Some pos \<Rightarrow> pos # matchPositions s searchValue (pos + max 1 (length searchValue)))"
  by pat_completeness auto
termination
  by (relation "measure (\<lambda>(s, p, i). Suc (length s) - i)")
     (auto simp: StringIndexOf_def split: if_splits)

declare matchPositions.simps [simp del]

fun build :: "string \<Rightarrow> string \<Rightarrow> string \<Rightarrow> nat list \<Rightarrow> nat \<Rightarrow> string" where
  "build s searchValue replaceValue [] endOfLastMatch =
     (if endOfLastMatch < length s then drop endOfLastMatch s else [])"
| "build s searchValue replaceValue (p # ps) endOfLastMatch =
     take (p - endOfLastMatch) (drop endOfLastMatch s)
       @ GetSubstitution searchValue s p replaceValue
       @ build s searchValue replaceValue ps (p + length searchValue)"

definition replaceAll :: "string \<Rightarrow> string \<Rightarrow> string \<Rightarrow> string" where
  "replaceAll s searchValue replaceValue =
     build s searchValue replaceValue (matchPositions s searchValue 0) 0"

text \<open>
  The substitution in the words of the specification: a literal, global, case-sensitive
  replacement of every occurrence of \<open>p\<close> by \<open>r\<close>, scanning from the left; and the
  same for the first occurrence only.
\<close>

function substitute_all :: "string \<Rightarrow> string \<Rightarrow> string \<Rightarrow> string" where
  "substitute_all p r s =
     (if p = [] \<or> s = [] then s
      else if prefix p s then r @ substitute_all p r (drop (length p) s)
      else hd s # substitute_all p r (tl s))"
  by pat_completeness auto
termination
  by (relation "measure (\<lambda>(p, r, s). length s)") (auto simp: neq_Nil_conv)

declare substitute_all.simps [simp del]

fun substitute_first :: "string \<Rightarrow> string \<Rightarrow> string \<Rightarrow> string" where
  "substitute_first p r [] = (if p = [] then r else [])"
| "substitute_first p r (c # s) =
     (if prefix p (c # s) then r @ drop (length p) (c # s) else c # substitute_first p r s)"

subsection \<open>\<^verbatim>\<open>encodeURIComponent\<close>\<close>

text \<open>
  Letters, digits and \<^verbatim>\<open>- _ . ! ~ * ' ( )\<close> stand for themselves; every other code
  unit is written as the percent-encoded bytes of its UTF-8 form (one byte below 128, two
  bytes from 128 to 255).
\<close>

definition uriUnreserved :: "char \<Rightarrow> bool" where
  "uriUnreserved c =
     (c \<in> set (''ABCDEFGHIJKLMNOPQRSTUVWXYZabcdefghijklmnopqrstuvwxyz0123456789-_.!~*()''
         @ [CHR 0x27]))"

definition hex_digit :: "nat \<Rightarrow> char" where
  "hex_digit n = ''0123456789ABCDEF'' ! (n mod 16)"

definition percent_byte :: "nat \<Rightarrow> string" where
  "percent_byte b = [CHR ''%'', hex_digit (b div 16), hex_digit (b mod 16)]"

definition encode_unit :: "char \<Rightarrow> string" where
  "encode_unit c =
     (if uriUnreserved c then [c]
      else if (of_char c :: nat) < 128 then percent_byte (of_char c)
      else percent_byte (192 + of_char c div 64) @ percent_byte (128 + of_char c mod 64))"

definition encodeURIComponent :: "string \<Rightarrow> string" where
  "encodeURIComponent s = concat (map encode_unit s)"

section \<open>URL, Headers, Request and Response\<close>

subsection \<open>URL\<close>

text \<open>
  A URL record as the URL standard has it, with the components the program reads or
  writes, each in its serialised form: the scheme without its colon, the host, the port
  (its decimal digits, \<^term>\<open>None\<close> for the default port of the scheme), the path, the
  query and the fragment (\<^term>\<open>None\<close> when absent).  Credentials are left out: a request
  URL never has them, and the program reads neither \<^verbatim>\<open>username\<close> nor \<^verbatim>\<open>password\<close>.
\<close>

record url =
  scheme :: string
  hostname :: string
  url_port :: "string option"
  pathname :: string
  query :: "string option"
  fragment :: "string option"

text \<open>The getters \<^verbatim>\<open>host\<close>, \<^verbatim>\<open>origin\<close> and \<^verbatim>\<open>href\<close>.\<close>

definition host :: "url \<Rightarrow> string" where
  "host u = hostname u @ (case url_port u of None \<Rightarrow> [] | Some p \<Rightarrow> CHR '':'' # p)"

definition origin :: "url \<Rightarrow> string" where
  "origin u =
     (if scheme u \<in> set [''http'', ''https'', ''ftp'', ''ws'', ''wss'']
      then scheme u @ ''://'' @ host u
      else ''null'')"

definition href :: "url \<Rightarrow> string" where
  "href u =
     scheme u @ ''://'' @ host u @ pathname u
       @ (case query u of None \<Rightarrow> [] | Some q \<Rightarrow> CHR ''?'' # q)
       @ (case fragment u of None \<Rightarrow> [] | Some f \<Rightarrow> CHR ''#'' # f)"

text \<open>
  What the platform does and the repository does not contain is a parameter of the model:
  \<^item> \<open>URL_parse\<close> is \<^verbatim>\<open>new URL(s)\<close>, \<^term>\<open>None\<close> where it throws;
  \<^item> \<open>hostname_state\<close> is the parser run of the \<^verbatim>\<open>hostname\<close> setter of an http(s)
    URL on the value assigned: the new host in serialised form, or \<^term>\<open>None\<close> where the
    parse fails (an empty or invalid host), in which case the setter leaves the URL as it
    is;
  \<^item> \<open>text_decode\<close> is the decoding of \<^verbatim>\<open>Response.text()\<close> (UTF-8 decode) and
    \<open>text_encode\<close> the encoding of a string body by \<^verbatim>\<open>new Response\<close> (UTF-8 encode).
\<close>

record platform =
  URL_parse :: "string \<Rightarrow> url option"
  hostname_state :: "string \<Rightarrow> string option"
  text_decode :: "bytes \<Rightarrow> string"
  text_encode :: "string \<Rightarrow> bytes"

text \<open>\<^verbatim>\<open>url.hostname = value\<close>\<close>

definition set_hostname :: "platform \<Rightarrow> url \<Rightarrow> string \<Rightarrow> url" where
  "set_hostname P u v =
     (case hostname_state P v of None \<Rightarrow> u | Some h \<Rightarrow> u\<lparr>hostname := h\<rparr>)"

subsection \<open>Headers\<close>

text \<open>
  A header list holds (name, value) pairs in order; names are compared after
  byte-lowercasing.  \<^verbatim>\<open>get\<close> joins the values of a name with a comma and a space.
  \<^verbatim>\<open>set\<close> and \<^verbatim>\<open>append\<close> first strip HTTP white space (TAB, LF, CR, SP) from both
  ends of the value and throw a TypeError when the value then contains NUL, LF or CR.
  The names the program uses are constants that are valid header names.
\<close>

type_synonym headers = "(string \<times> string) list"

definition lower_char :: "char \<Rightarrow> char" where
  "lower_char c =
     (if 65 \<le> (of_char c :: nat) \<and> (of_char c :: nat) \<le> 90 then char_of (of_char c + 32 :: nat) else c)"

definition byte_lowercase :: "string \<Rightarrow> string" where
  "byte_lowercase s = map lower_char s"

definition same_name :: "string \<Rightarrow> string \<Rightarrow> bool" where
  "same_name a b = (byte_lowercase a = byte_lowercase b)"

definition header_values :: "headers \<Rightarrow> string \<Rightarrow> string list" where
  "header_values hs name = map snd (filter (\<lambda>h. same_name (fst h) name) hs)"

definition headers_get :: "headers \<Rightarrow> string \<Rightarrow> string option" where
  "headers_get hs name =
     (if header_values hs name = [] then None else Some (join (header_values hs name) '', ''))"

definition headers_has :: "headers \<Rightarrow> string \<Rightarrow> bool" where
  "headers_has hs name = (header_values hs name \<noteq> [])"

definition headers_delete :: "headers \<Rightarrow> string \<Rightarrow> headers" where
  "headers_delete hs name = filter (\<lambda>h. \<not> same_name (fst h) name) hs"

definition http_whitespace :: "char \<Rightarrow> bool" where
  "http_whitespace c = (c \<in> set [CHR 0x09, CHR 0x0A, CHR 0x0D, CHR 0x20])"

definition normalize_value :: "string \<Rightarrow> string" where
  "normalize_value v = rev (dropWhile http_whitespace (rev (dropWhile http_whitespace v)))"

definition valid_value :: "string \<Rightarrow> bool" where
  "valid_value v = (list_all (\<lambda>c. c \<notin> set [CHR 0x00, CHR 0x0A, CHR 0x0D]) v)"

definition headers_append :: "headers \<Rightarrow> string \<Rightarrow> string \<Rightarrow> headers option" where
  "headers_append hs name v =
     (if valid_value (normalize_value v) then Some (hs @ [(name, normalize_value v)]) else None)"

fun set_first :: "headers \<Rightarrow> string \<Rightarrow> string \<Rightarrow> headers" where
  "set_first [] name v = [(name, v)]"
| "set_first (h # hs) name v =
     (if same_name (fst h) name then (fst h, v) # headers_delete hs name
      else h # set_first hs name v)"

definition headers_set :: "headers \<Rightarrow> string \<Rightarrow> string \<Rightarrow> headers option" where
  "headers_set hs name v =
     (if valid_value (normalize_value v) then Some (set_first hs name (normalize_value v)) else None)"

subsection \<open>Request and Response\<close>

text \<open>
  A request and a response with the parts the program touches.  \<open>req_url\<close> is the
  parsed form of \<^verbatim>\<open>req.url\<close>, so \<^verbatim>\<open>new URL(req.url)\<close> is the record itself.
\<close>

record request =
  req_method :: string
  req_url :: url
  req_headers :: headers
  req_body :: "bytes option"

record response =
  status :: nat
  headers :: headers
  body :: "bytes option"

text \<open>
  \<^verbatim>\<open>new Request(url, req)\<close> takes the method, the headers (a copy) and the body of
  \<open>req\<close>.  The constructor's own checks of the method and the body are not modelled:
  \<open>req\<close> is a request the server accepted.
\<close>

definition new_Request :: "url \<Rightarrow> request \<Rightarrow> request" where
  "new_Request u req = req\<lparr>req_url := u\<rparr>"

text \<open>
  What \<^verbatim>\<open>rewriteBody\<close> returns and \<^verbatim>\<open>new Response\<close> takes: the stream of the
  upstream body, or a string.  A string body is encoded, and gets a Content-Type of
  text/plain when the headers have none.  The constructor's checks of the status are not
  modelled: the response it copies is one that \<^verbatim>\<open>fetch\<close> returned.
\<close>

datatype BodyInit = Stream bytes | Text string

fun body_bytes :: "platform \<Rightarrow> BodyInit \<Rightarrow> bytes" where
  "body_bytes P (Stream b) = b"
| "body_bytes P (Text s) = text_encode P s"

fun is_Text :: "BodyInit option \<Rightarrow> bool" where
  "is_Text (Some (Text s)) = True"
| "is_Text b = False"

definition new_Response :: "platform \<Rightarrow> BodyInit option \<Rightarrow> response \<Rightarrow> response" where
  "new_Response P b r =
     \<lparr>status = status r,
      headers =
        (if is_Text b \<and> \<not> headers_has (headers r) ''Content-Type''
         then headers r @ [(''content-type'', ''text/plain;charset=UTF-8'')]
         else headers r),
      body = map_option (body_bytes P) b\<rparr>"

text \<open>\<^verbatim>\<open>Response.redirect(url, status)\<close> for a redirect status: no body, one header.\<close>

definition Response_redirect :: "url \<Rightarrow> nat \<Rightarrow> response" where
  "Response_redirect u st = \<lparr>status = st, headers = [(''Location'', href u)], body = None\<rparr>"

section \<open>The program\<close>

text \<open>
  The configuration is read from the environment once, by \<^verbatim>\<open>newConfig\<close>; the functions
  of the proxy take it as a value.
\<close>

record ory_config =
  projectHost :: string
  apiKey :: string

record Config =
  port :: int
  appOrigin :: string
  ory :: ory_config

definition rewriteBody :: "platform \<Rightarrow> response \<Rightarrow> string \<Rightarrow> string \<Rightarrow> BodyInit option" where
  "rewriteBody P res upstreamHost newOrigin =
     (case body res of
        None \<Rightarrow> None
      | Some b \<Rightarrow>
          (case headers_get (headers res) ''Content-Type'' of
             None \<Rightarrow> Some (Stream b)
           | Some contentType \<Rightarrow>
               if \<not> startsWith contentType ''text/'' then Some (Stream b)
               else Some (Text (replaceAll (text_decode P b) upstreamHost newOrigin))))"

text \<open>\<^verbatim>\<open>xs.forEach(f)\<close> over a state that \<open>f\<close> updates, stopping where \<open>f\<close> throws.\<close>

fun forEach :: "('s \<Rightarrow> 'a \<Rightarrow> 's option) \<Rightarrow> 's \<Rightarrow> 'a list \<Rightarrow> 's option" where
  "forEach f st [] = Some st"
| "forEach f st (x # xs) = (case f st x of None \<Rightarrow> None | Some st' \<Rightarrow> forEach f st' xs)"

text \<open>
  The two components that \<^verbatim>\<open>cookieRewriters\<close> reads off a URL, broadest first: the host,
  and the last two labels of the host.  \<open>rewriteCookie\<close> is the expression that the
  loop body hands to \<^verbatim>\<open>headers.append\<close>: the \<^verbatim>\<open>reduce\<close> over the rewriters, started
  from the cookie without its leading white space.
\<close>

definition lastTwoLabels :: "url \<Rightarrow> string" where
  "lastTwoLabels u = join (slice_last 2 (split (host u) CHR ''.'')) ''.''"

definition cookieRewriters :: "(url \<Rightarrow> string) list" where
  "cookieRewriters = [host, lastTwoLabels]"

definition rewriteCookie :: "url \<Rightarrow> url \<Rightarrow> string \<Rightarrow> string" where
  "rewriteCookie upstreamURL newURL cookie =
     foldl
       (\<lambda>result getURLComponent.
          replaceAll result
            (encodeURIComponent (getURLComponent upstreamURL))
            (encodeURIComponent (getURLComponent newURL)))
       (trimStart cookie) cookieRewriters"

definition rewriteCookieDomain :: "headers \<Rightarrow> url \<Rightarrow> url \<Rightarrow> headers option" where
  "rewriteCookieDomain hs upstreamURL newURL =
     (case headers_get hs ''Set-Cookie'' of
        None \<Rightarrow> Some hs
      | Some setCookieHeader \<Rightarrow>
          forEach
            (\<lambda>h cookie. headers_append h ''Set-Cookie'' (rewriteCookie upstreamURL newURL cookie))
            (headers_delete hs ''Set-Cookie'')
            (split setCookieHeader CHR '',''))"

definition rewriteLocation :: "headers \<Rightarrow> string \<Rightarrow> string \<Rightarrow> headers option" where
  "rewriteLocation hs upstreamHost newOrigin =
     (case headers_get hs ''Location'' of
        None \<Rightarrow> Some hs
      | Some locationHeader \<Rightarrow>
          headers_set hs ''Location'' (replace locationHeader upstreamHost newOrigin))"

definition newRequestRewriter :: "platform \<Rightarrow> Config \<Rightarrow> request \<Rightarrow> request option" where
  "newRequestRewriter P cfg req =
     (let url = set_hostname P (req_url req) (projectHost (ory cfg));
          proxyReq = new_Request url req
      in do {
        h1 \<leftarrow> headers_set (req_headers proxyReq) ''Ory-No-Custom-Domain-Redirect'' ''true'';
        h2 \<leftarrow> headers_set h1 ''Ory-Base-URL-Rewrite'' (appOrigin cfg);
        h3 \<leftarrow> headers_set h2 ''Ory-Base-URL-Rewrite-Token'' (apiKey (ory cfg));
        h4 \<leftarrow> headers_set h3 ''Ory-Network-Ingress'' ''T'';
        Some (proxyReq\<lparr>req_headers := h4\<rparr>)
      })"

definition newResponseRewriter :: "platform \<Rightarrow> string \<Rightarrow> string \<Rightarrow> response \<Rightarrow> response option" where
  "newResponseRewriter P upstreamHost newOrigin r =
     do {
       upstreamURL \<leftarrow> URL_parse P (''https://'' @ upstreamHost);
       let body = rewriteBody P r (origin upstreamURL) newOrigin;
       let res = new_Response P body r;
       h1 \<leftarrow> (if headers_has (headers res) ''Set-Cookie''
              then do {
                newURL \<leftarrow> URL_parse P newOrigin;
                rewriteCookieDomain (headers res) upstreamURL newURL
              }
              else Some (headers res));
       h2 \<leftarrow> (if headers_has h1 ''Location''
              then rewriteLocation h1 (origin upstreamURL) newOrigin
              else Some h1);
       Some (res\<lparr>headers := h2\<rparr>)
     }"

text \<open>
  The handler.  \<open>fetch\<close> is the upstream invoker, called with redirects left to the
  caller, so that a 3xx response comes back as it is (\<^term>\<open>None\<close>: the call fails).
  The second component of the result lists the requests handed to it, in order, so that
  the number of upstream calls can be read off.
\<close>

definition newHandler ::
  "platform \<Rightarrow> Config \<Rightarrow> (request \<Rightarrow> response option) \<Rightarrow> request \<Rightarrow> response option \<times> request list" where
  "newHandler P cfg fetch req =
     (let url = req_url req in
      if pathname url = ''/'' then
        (Some (Response_redirect (url\<lparr>pathname := ''/ui''\<rparr>) 303), [])
      else
        (case newRequestRewriter P cfg req of
           None \<Rightarrow> (None, [])
         | Some proxyReq \<Rightarrow>
             (case fetch proxyReq of
                None \<Rightarrow> (None, [proxyReq])
              | Some res \<Rightarrow>
                  (newResponseRewriter P (projectHost (ory cfg)) (appOrigin cfg) res, [proxyReq]))))"

section \<open>The configuration and the platform of the examples\<close>

text \<open>
  The examples of the specification use the upstream host \<^verbatim>\<open>upstream.example.com\<close> and
  the public origin \<^verbatim>\<open>https://app.example.org\<close>.  \<open>example_URL\<close> tabulates what the
  URL parser of the platform returns for the two strings that the program parses under
  this configuration, \<open>example_hostname_state\<close> what the \<^verbatim>\<open>hostname\<close> setter accepts;
  the bodies of the examples are ASCII, which UTF-8 decodes and encodes to itself.
\<close>

definition upstream_url :: url where
  "upstream_url =
     \<lparr>scheme = ''https'', hostname = ''upstream.example.com'', url_port = None,
      pathname = ''/'', query = None, fragment = None\<rparr>"

definition public_url :: url where
  "public_url =
     \<lparr>scheme = ''https'', hostname = ''app.example.org'', url_port = None,
      pathname = ''/'', query = None, fragment = None\<rparr>"

definition example_URL :: "string \<Rightarrow> url option" where
  "example_URL s =
     (if s = ''https://upstream.example.com'' then Some upstream_url
      else if s = ''https://app.example.org'' then Some public_url
      else None)"

definition example_hostname_state :: "string \<Rightarrow> string option" where
  "example_hostname_state v = (if v = ''upstream.example.com'' then Some v else None)"

definition ascii_text :: "string \<Rightarrow> string" where
  "ascii_text b = b"

definition example_platform :: platform where
  "example_platform =
     \<lparr>URL_parse = example_URL, hostname_state = example_hostname_state,
      text_decode = ascii_text, text_encode = ascii_text\<rparr>"

definition example_config :: Config where
  "example_config =
     \<lparr>port = 8080, appOrigin = ''https://app.example.org'',
      ory = \<lparr>projectHost = ''upstream.example.com'', apiKey = ''secret''\<rparr>\<rparr>"

text \<open>An upstream that answers every request with an empty 204 response.\<close>

definition example_fetch :: "request \<Rightarrow> response option" where
  "example_fetch req = Some \<lparr>status = 204, headers = [], body = None\<rparr>"

text \<open>
  Requests of the examples: the root and a login page as a local server sees them (plain
  HTTP on port 8080, the default port of the configuration), and the same two on the
  public origin, the root also with a query.  The last one carries headers with the names
  of the control headers.
\<close>

definition local_root_request :: request where
  "local_root_request =
     \<lparr>req_method = ''GET'',
      req_url = \<lparr>scheme = ''http'', hostname = ''localhost'', url_port = Some ''8080'',
                 pathname = ''/'', query = None, fragment = None\<rparr>,
      req_headers = [(''accept'', ''text/html'')], req_body = None\<rparr>"

definition local_login_request :: request where
  "local_login_request =
     \<lparr>req_method = ''POST'',
      req_url = \<lparr>scheme = ''http'', hostname = ''localhost'', url_port = Some ''8080'',
                 pathname = ''/self-service/login'', query = Some ''flow=1'', fragment = None\<rparr>,
      req_headers = [(''accept'', ''text/html'')], req_body = Some ''identifier=a''\<rparr>"

definition public_root_request :: request where
  "public_root_request =
     \<lparr>req_method = ''GET'',
      req_url = \<lparr>scheme = ''https'', hostname = ''app.example.org'', url_port = None,
                 pathname = ''/'', query = None, fragment = None\<rparr>,
      req_headers = [(''accept'', ''text/html'')], req_body = None\<rparr>"

definition public_root_query_request :: request where
  "public_root_query_request =
     \<lparr>req_method = ''GET'',
      req_url = \<lparr>scheme = ''https'', hostname = ''app.example.org'', url_port = None,
                 pathname = ''/'', query = Some ''flow=1'', fragment = None\<rparr>,
      req_headers = [(''accept'', ''text/html'')], req_body = None\<rparr>"

definition public_login_request :: request where
  "public_login_request =
     \<lparr>req_method = ''POST'',
      req_url = \<lparr>scheme = ''https'', hostname = ''app.example.org'', url_port = None,
                 pathname = ''/self-service/login'', query = Some ''flow=1'', fragment = None\<rparr>,
      req_headers =
        [(''ory-base-url-rewrite'', ''https://other.example''),
         (''accept'', ''text/html''),
         (''Ory-Base-URL-Rewrite'', ''https://third.example''),
         (''ORY-NETWORK-INGRESS'', ''F'')],
      req_body = Some ''identifier=a''\<rparr>"

text \<open>Upstream responses of the examples.\<close>

definition redirect_response :: response where
  "redirect_response =
     \<lparr>status = 302,
      headers = [(''Location'', ''https://upstream.example.com/callback?x=1'')],
      body = None\<rparr>"

definition redirect_with_return_response :: response where
  "redirect_with_return_response =
     \<lparr>status = 302,
      headers =
        [(''Location'',
          ''https://upstream.example.com/login?return_to=https://upstream.example.com/settings'')],
      body = None\<rparr>"

definition html_response :: response where
  "html_response =
     \<lparr>status = 200,
      headers = [(''Content-Type'', ''text/html; charset=utf-8'')],
      body = Some ''<a href=https://upstream.example.com/a>https://upstream.example.com</a> HTTPS://UPSTREAM.EXAMPLE.COM''\<rparr>"

definition octet_stream_response :: response where
  "octet_stream_response =
     \<lparr>status = 200,
      headers = [(''Content-Type'', ''application/octet-stream'')],
      body = Some ''https://upstream.example.com upstream.example.com''\<rparr>"

definition json_response :: response where
  "json_response =
     \<lparr>status = 200,
      headers = [(''content-type'', ''application/json'')],
      body = Some ''{url:https://upstream.example.com/self-service/login}''\<rparr>"



definition expires_two_cookies_response :: response where
  "expires_two_cookies_response =
     \<lparr>status = 200,
      headers =
        [(''Set-Cookie'',
          ''lang=en; Expires=Wed, 21 Oct 2026 07:28:00 GMT, theme=dark; Domain=upstream.example.com'')],
      body = None\<rparr>"

definition two_cookies_response :: response where
  "two_cookies_response =
     \<lparr>status = 200,
      headers =
        [(''Set-Cookie'', ''session=abc; Domain=upstream.example.com, csrf=x; Domain=example.com'')],
      body = None\<rparr>"

definition expires_cookie_response :: response where
  "expires_cookie_response =
     \<lparr>status = 200,
      headers = [(''Set-Cookie'', ''lang=en; Expires=Wed, 21 Oct 2026 07:28:00 GMT'')],
      body = None\<rparr>"

definition plain_response :: response where
  "plain_response =
     \<lparr>status = 200,
      headers =
        [(''Content-Type'', ''text/plain''), (''Set-Cookie'', ''lang=en; Path=/''),
         (''Location'', ''https://other.example/''), (''Set-Cookie'', ''theme=dark'')],
      body = Some ''hello''\<rparr>"

text \<open>
  Two more upstream responses without any upstream string: a text body that starts with a
  byte order mark, and a cookie that starts with a vertical tab.  UTF-8 decoding drops a
  byte order mark at the start of the body and is otherwise the identity on ASCII bytes;
  \<open>bom_platform\<close> is the platform of the examples with this decoder.
\<close>

definition strip_bom :: "bytes \<Rightarrow> string" where
  "strip_bom b = (if prefix [CHR 0xEF, CHR 0xBB, CHR 0xBF] b then drop 3 b else b)"

definition bom_platform :: platform where
  "bom_platform = example_platform\<lparr>text_decode := strip_bom\<rparr>"

definition bom_response :: response where
  "bom_response =
     \<lparr>status = 200,
      headers = [(''Content-Type'', ''text/plain'')],
      body = Some (CHR 0xEF # CHR 0xBB # CHR 0xBF # ''hello'')\<rparr>"

definition vt_cookie_response :: response where
  "vt_cookie_response =
     \<lparr>status = 200,
      headers = [(''Set-Cookie'', CHR 0x0B # ''lang=en'')],
      body = None\<rparr>"

section \<open>Properties of the string operations\<close>

text \<open>
  A replacement template without a dollar sign is inserted as it stands, and then
  \<^verbatim>\<open>replaceAll\<close> and \<^verbatim>\<open>replace\<close> are the literal substitutions of the
  specification.
\<close>

lemma GetSubstitution_literal:
  "CHR 0x24 \<notin> set r \<Longrightarrow> GetSubstitution m s pos r = r"
  by (induction m s pos r rule: GetSubstitution.induct) auto

lemma indexOf_None_iff: "indexOf p s = None \<longleftrightarrow> \<not> sublist p s"
proof (induction s)
  case Nil
  then show ?case by simp
next
  case (Cons c s)
  then show ?case by (auto simp: sublist_Cons_right)
qed

lemma indexOf_Some_prefix:
  "indexOf p s = Some k \<Longrightarrow> k \<le> length s \<and> prefix p (drop k s)"
proof (induction s arbitrary: k)
  case Nil
  then show ?case by (auto split: if_splits)
next
  case (Cons c s)
  then show ?case by (auto split: if_splits)
qed

lemma StringIndexOf_0: "StringIndexOf s p 0 = indexOf p s"
  by (cases "indexOf p s") (simp_all add: StringIndexOf_def)

lemma matchPositions_absent: "\<not> sublist p s \<Longrightarrow> matchPositions s p 0 = []"
  by (subst matchPositions.simps) (simp add: StringIndexOf_0 indexOf_None_iff [symmetric])

lemma replaceAll_absent: "\<not> sublist p s \<Longrightarrow> replaceAll s p r = s"
  by (simp add: replaceAll_def matchPositions_absent)

lemma replace_absent: "\<not> sublist p s \<Longrightarrow> replace s p r = s"
  by (simp add: replace_def StringIndexOf_0 indexOf_None_iff [symmetric])

lemma substitute_all_absent: "indexOf p s = None \<Longrightarrow> substitute_all p r s = s"
proof (induction s)
  case Nil
  then show ?case by (simp add: substitute_all.simps)
next
  case (Cons c s)
  then show ?case
    by (subst substitute_all.simps) (auto split: if_splits)
qed

lemma substitute_all_first:
  "indexOf p s = Some k \<Longrightarrow> p \<noteq> [] \<Longrightarrow>
   substitute_all p r s = take k s @ r @ substitute_all p r (drop (k + length p) s)"
proof (induction s arbitrary: k)
  case Nil
  then show ?case by simp
next
  case (Cons c s)
  show ?case
  proof (cases "prefix p (c # s)")
    case True
    with Cons.prems have "k = 0" by simp
    with True Cons.prems(2) show ?thesis
      by (subst substitute_all.simps) simp
  next
    case False
    with Cons.prems obtain k' where k: "k = Suc k'" "indexOf p s = Some k'"
      by auto
    from Cons.IH [OF k(2) Cons.prems(2)] False Cons.prems(2) k(1) show ?thesis
      by (subst substitute_all.simps) simp
  qed
qed

lemma build_substitute_all:
  assumes "CHR 0x24 \<notin> set r"
  shows "p \<noteq> [] \<Longrightarrow> e \<le> length s \<Longrightarrow>
    build s p r (matchPositions s p e) e = substitute_all p r (drop e s)"
proof (induction s p e rule: matchPositions.induct)
  case (1 s p e)
  note ne = \<open>p \<noteq> []\<close> and e = \<open>e \<le> length s\<close>
  show ?case
  proof (cases "indexOf p (drop e s)")
    case None
    with e have "matchPositions s p e = []"
      by (subst matchPositions.simps) (simp add: StringIndexOf_def)
    with None show ?thesis
      by (simp add: substitute_all_absent)
  next
    case (Some k)
    from indexOf_Some_prefix [OF Some] have k: "k \<le> length s - e" "prefix p (drop (e + k) s)"
      by (simp_all add: add.commute)
    from k(2) have "length p \<le> length (drop (e + k) s)"
      by (rule prefix_length_le)
    with e k(1) have le: "e + k + length p \<le> length s" by simp
    from e Some have sio: "StringIndexOf s p e = Some (e + k)"
      by (simp add: StringIndexOf_def)
    from ne have mx: "max 1 (length p) = length p" "max (Suc 0) (length p) = length p"
      by (cases p; simp)+
    have mp: "matchPositions s p e = (e + k) # matchPositions s p (e + k + length p)"
      by (subst matchPositions.simps) (simp add: sio mx)
    have ih: "build s p r (matchPositions s p (e + k + length p)) (e + k + length p)
               = substitute_all p r (drop (e + k + length p) s)"
      using "1.IH" [OF sio] le mx ne by simp
    show ?thesis
      using ih assms ne
      by (simp add: mp GetSubstitution_literal substitute_all_first [OF Some] add.commute add.left_commute)
  qed
qed

lemma replaceAll_substitute_all:
  "p \<noteq> [] \<Longrightarrow> CHR 0x24 \<notin> set r \<Longrightarrow> replaceAll s p r = substitute_all p r s"
  using build_substitute_all [of r p 0 s] by (simp add: replaceAll_def)

lemma substitute_first_indexOf:
  "substitute_first p r s =
     (case indexOf p s of None \<Rightarrow> s | Some k \<Rightarrow> take k s @ r @ drop (k + length p) s)"
  by (induction s) (auto split: option.splits)

lemma replace_substitute_first:
  "CHR 0x24 \<notin> set r \<Longrightarrow> replace s p r = substitute_first p r s"
  by (simp add: replace_def StringIndexOf_0 substitute_first_indexOf GetSubstitution_literal
      split: option.splits)
subsection \<open>Code units of the results\<close>

lemma set_GetSubstitution:
  "set (GetSubstitution m s pos r) \<subseteq> set r \<union> set m \<union> set s"
proof (induction m s pos r rule: GetSubstitution.induct)
  case (3 m s pos c d t)
  have tk: "set (take pos s) \<subseteq> set s" by (rule set_take_subset)
  have dr: "set (drop (min (pos + length m) (length s)) s) \<subseteq> set s" by (rule set_drop_subset)
  show ?case
  proof (cases "c = CHR 0x24 \<and> d \<in> {CHR 0x24, CHR 0x60, CHR 0x26, CHR 0x27}")
    case False
    with 3(5) show ?thesis by auto
  next
    case True
    then have c: "c = CHR 0x24" by simp
    from True consider "d = CHR 0x24" | "d = CHR 0x60" | "d = CHR 0x26" | "d = CHR 0x27" by blast
    then show ?thesis
    proof cases
      case 1
      with c 3(1) show ?thesis by auto
    next
      case 2
      with c 3(2) tk show ?thesis by auto
    next
      case 3
      with c "3.IH"(3) show ?thesis by auto
    next
      case 4
      with c "3.IH"(4) dr show ?thesis by auto
    qed
  qed
qed simp_all

lemma prefix_set_subset: "prefix p s \<Longrightarrow> set p \<subseteq> set s"
  by (auto simp: prefix_def)

lemma indexOf_Some_set: "indexOf p s = Some k \<Longrightarrow> set p \<subseteq> set s"
proof -
  assume "indexOf p s = Some k"
  then have "prefix p (drop k s)" by (simp add: indexOf_Some_prefix)
  then have "set p \<subseteq> set (drop k s)" by (rule prefix_set_subset)
  also have "\<dots> \<subseteq> set s" by (rule set_drop_subset)
  finally show ?thesis .
qed

lemma set_replace: "set (replace s p r) \<subseteq> set s \<union> set r"
proof (cases "indexOf p s")
  case None
  then show ?thesis by (simp add: replace_def StringIndexOf_0)
next
  case (Some k)
  have "set (GetSubstitution p s k r) \<subseteq> set r \<union> set p \<union> set s"
    by (rule set_GetSubstitution)
  with indexOf_Some_set [OF Some] have "set (GetSubstitution p s k r) \<subseteq> set s \<union> set r"
    by auto
  moreover have "set (take k s) \<subseteq> set s" by (rule set_take_subset)
  moreover have "set (drop (k + length p) s) \<subseteq> set s" by (rule set_drop_subset)
  ultimately show ?thesis
    using Some by (auto simp: replace_def StringIndexOf_0)
qed

lemma matchPositions_set:
  "matchPositions s p e \<noteq> [] \<Longrightarrow> set p \<subseteq> set s"
proof -
  assume ne: "matchPositions s p e \<noteq> []"
  then obtain k where k: "indexOf p (drop e s) = Some k"
    by (subst (asm) matchPositions.simps)
       (auto simp: StringIndexOf_def split: option.splits if_splits)
  have "set p \<subseteq> set (drop e s)" by (rule indexOf_Some_set [OF k])
  also have "\<dots> \<subseteq> set s" by (rule set_drop_subset)
  finally show ?thesis .
qed

lemma set_build:
  "(ps \<noteq> [] \<Longrightarrow> set p \<subseteq> set s) \<Longrightarrow> set (build s p r ps e) \<subseteq> set s \<union> set r"
proof (induction ps arbitrary: e)
  case Nil
  have "set (drop e s) \<subseteq> set s" by (rule set_drop_subset)
  then show ?case by auto
next
  case (Cons pos ps)
  from Cons.prems have p: "set p \<subseteq> set s" by simp
  have "set (GetSubstitution p s pos r) \<subseteq> set r \<union> set p \<union> set s"
    by (rule set_GetSubstitution)
  with p have g: "set (GetSubstitution p s pos r) \<subseteq> set s \<union> set r" by blast
  have t: "set (take (pos - e) (drop e s)) \<subseteq> set s \<union> set r"
    using set_take_subset [of "pos - e" "drop e s"] set_drop_subset [of e s] by blast
  have "set (build s p r ps (pos + length p)) \<subseteq> set s \<union> set r"
    by (rule Cons.IH) (rule p)
  with g t show ?case by simp
qed

lemma set_replaceAll: "set (replaceAll s p r) \<subseteq> set s \<union> set r"
  unfolding replaceAll_def by (rule set_build) (rule matchPositions_set)

subsection \<open>Header values\<close>

lemma valid_value_subset: "set a \<subseteq> set b \<Longrightarrow> valid_value b \<Longrightarrow> valid_value a"
  by (auto simp: valid_value_def list_all_iff)

lemma valid_value_append: "valid_value (a @ b) \<longleftrightarrow> valid_value a \<and> valid_value b"
  by (simp add: valid_value_def)

lemma valid_value_join:
  "list_all valid_value xs \<Longrightarrow> valid_value sep \<Longrightarrow> valid_value (join xs sep)"
  by (induction xs sep rule: join.induct) (simp_all add: valid_value_append, simp add: valid_value_def)

lemma set_normalize_value: "set (normalize_value v) \<subseteq> set v"
proof -
  have "set (dropWhile http_whitespace (rev (dropWhile http_whitespace v)))
          \<subseteq> set (rev (dropWhile http_whitespace v))"
    by (auto dest: set_dropWhileD)
  also have "\<dots> \<subseteq> set v" by (auto dest: set_dropWhileD)
  finally show ?thesis by (simp add: normalize_value_def)
qed

lemma set_trimStart: "set (trimStart s) \<subseteq> set s"
  by (auto simp: trimStart_def dest: set_dropWhileD)

lemma split_not_Nil: "split s sep \<noteq> []"
  by (induction s) (auto split: list.splits)

lemma set_split_all: "\<forall>x\<in>set (split s sep). set x \<subseteq> set s"
proof (induction s)
  case Nil
  then show ?case by simp
next
  case (Cons c s)
  show ?case
  proof (cases "split s sep")
    case Nil
    then show ?thesis by (simp add: split_not_Nil)
  next
    case (Cons a list)
    with Cons.IH have a: "set a \<subseteq> set s" and l: "\<forall>x\<in>set list. set x \<subseteq> set s"
      by simp_all
    from a have "set (c # a) \<subseteq> set (c # s)" by auto
    moreover from l have "\<forall>x\<in>set list. set x \<subseteq> set (c # s)" by auto
    moreover from a have "set a \<subseteq> set (c # s)" by auto
    ultimately show ?thesis using Cons by auto
  qed
qed

lemma set_split: "x \<in> set (split s sep) \<Longrightarrow> set x \<subseteq> set s"
  using set_split_all by blast

lemma split_no_sep: "sep \<notin> set a \<Longrightarrow> split a sep = [a]"
  by (induction a) auto

lemma split_append_sep: "sep \<notin> set a \<Longrightarrow> split (a @ sep # rest) sep = a # split rest sep"
  by (induction a) auto

lemma sep_notin_split_all: "\<forall>x\<in>set (split s sep). sep \<notin> set x"
proof (induction s)
  case Nil
  then show ?case by simp
next
  case (Cons c s)
  show ?case
  proof (cases "split s sep")
    case Nil
    then show ?thesis by (simp add: split_not_Nil)
  next
    case (Cons a list)
    with Cons.IH have "sep \<notin> set a" and "\<forall>x\<in>set list. sep \<notin> set x"
      by simp_all
    then show ?thesis using Cons by simp
  qed
qed

lemma sep_notin_split: "x \<in> set (split s sep) \<Longrightarrow> sep \<notin> set x"
  using sep_notin_split_all by blast

lemma same_name_refl: "same_name a a"
  by (simp add: same_name_def)

lemma header_values_append: "header_values (hs @ hs') m = header_values hs m @ header_values hs' m"
  by (simp add: header_values_def)

lemma header_values_delete:
  "header_values (headers_delete hs n) m = (if same_name n m then [] else header_values hs m)"
  by (induction hs) (auto simp: header_values_def headers_delete_def same_name_def)

lemma header_values_Cons:
  "header_values (h # hs) m =
     (if same_name (fst h) m then snd h # header_values hs m else header_values hs m)"
  by (simp add: header_values_def)

lemma header_values_set_first:
  "header_values (set_first hs n v) m = (if same_name n m then [v] else header_values hs m)"
proof (induction hs)
  case Nil
  then show ?case by (simp add: header_values_def)
next
  case (Cons h hs)
  show ?case
  proof (cases "same_name (fst h) n")
    case True
    then have eq: "same_name (fst h) m = same_name n m"
      by (simp add: same_name_def)
    from True have "set_first (h # hs) n v = (fst h, v) # headers_delete hs n" by simp
    then show ?thesis
      by (simp add: header_values_Cons header_values_delete eq)
  next
    case False
    then have "set_first (h # hs) n v = h # set_first hs n v" by simp
    with Cons False show ?thesis
      by (auto simp: header_values_Cons same_name_def)
  qed
qed

lemma forEach_append:
  "list_all (\<lambda>x. valid_value (normalize_value (f x))) xs \<Longrightarrow>
   forEach (\<lambda>h x. headers_append h n (f x)) h0 xs
     = Some (h0 @ map (\<lambda>x. (n, normalize_value (f x))) xs)"
  by (induction xs arbitrary: h0) (simp_all add: headers_append_def)

lemma header_values_map_name:
  "header_values (map (\<lambda>x. (n, g x)) xs) m = (if same_name n m then map g xs else [])"
  by (induction xs) (simp_all add: header_values_def)

subsection \<open>\<^verbatim>\<open>encodeURIComponent\<close>\<close>

lemma set_encodeURIComponent:
  "set (encodeURIComponent s)
     \<subseteq> set (''ABCDEFGHIJKLMNOPQRSTUVWXYZabcdefghijklmnopqrstuvwxyz0123456789-_.!~*()''
          @ [CHR 0x27] @ ''%0123456789ABCDEF'')"
proof -
  have un: "x \<in> set (A @ B) \<Longrightarrow> set [x] \<subseteq> set (A @ B @ C)" for x :: char and A B C
    by auto
  have pc: "set X \<subseteq> set C \<Longrightarrow> set X \<subseteq> set (A @ B @ C)" for X A B C :: string
    by auto
  have hex: "hex_digit n \<in> set ''0123456789ABCDEF''" for n
    unfolding hex_digit_def by (rule nth_mem) simp
  have pb: "set (percent_byte b) \<subseteq> set ''%0123456789ABCDEF''" for b
    using hex [of "b div 16"] hex [of "b mod 16"] by (simp add: percent_byte_def)
  have "set (encode_unit c)
     \<subseteq> set (''ABCDEFGHIJKLMNOPQRSTUVWXYZabcdefghijklmnopqrstuvwxyz0123456789-_.!~*()''
          @ [CHR 0x27] @ ''%0123456789ABCDEF'')" for c
  proof (cases "uriUnreserved c")
    case True
    then have m: "c \<in> set (''ABCDEFGHIJKLMNOPQRSTUVWXYZabcdefghijklmnopqrstuvwxyz0123456789-_.!~*()''
         @ [CHR 0x27])"
      by (simp only: uriUnreserved_def)
    from True have "encode_unit c = [c]" by (simp only: encode_unit_def if_True)
    with un [OF m] show ?thesis by (simp only:)
  next
    case False
    show ?thesis
    proof (cases "(of_char c :: nat) < 128")
      case True
      with False have "encode_unit c = percent_byte (of_char c)"
        by (simp only: encode_unit_def if_True if_False)
      with pc [OF pb] show ?thesis by (simp only:)
    next
      case b: False
      with False have "encode_unit c =
          percent_byte (192 + of_char c div 64) @ percent_byte (128 + of_char c mod 64)"
        by (simp only: encode_unit_def if_False)
      moreover have "set (percent_byte (192 + of_char c div 64) @ percent_byte (128 + of_char c mod 64))
          \<subseteq> set ''%0123456789ABCDEF''"
        using pb [of "192 + of_char c div 64"] pb [of "128 + of_char c mod 64"]
        by (simp only: set_append Un_subset_iff)
      ultimately show ?thesis using pc by (simp only:)
    qed
  qed
  then show ?thesis by (auto simp only: encodeURIComponent_def set_concat set_map)
qed


lemma encodeURIComponent_no_comma: "CHR '','' \<notin> set (encodeURIComponent s)"
  using set_encodeURIComponent [of s] by auto

lemma valid_value_encodeURIComponent: "valid_value (encodeURIComponent s)"
  using set_encodeURIComponent [of s] by (auto simp: valid_value_def list_all_iff)


subsection \<open>The rewriters of the response\<close>

lemma header_values_same_name:
  "same_name n m \<Longrightarrow> header_values hs n = header_values hs m"
  by (simp add: header_values_def same_name_def)

lemma valid_headers_get:
  assumes "list_all (\<lambda>h. valid_value (snd h)) hs" and "headers_get hs n = Some v"
  shows "valid_value v"
proof -
  from assms(1) have "list_all valid_value (header_values hs n)"
    by (auto simp: header_values_def list_all_iff)
  moreover have "valid_value '', ''" by (simp add: valid_value_def)
  ultimately have "valid_value (join (header_values hs n) '', '')"
    by (rule valid_value_join)
  with assms(2) show ?thesis
    by (auto simp: headers_get_def split: if_splits)
qed

lemma rewriteCookie_passes:
  "rewriteCookie upstreamURL newURL cookie =
     replaceAll
       (replaceAll (trimStart cookie)
          (encodeURIComponent (host upstreamURL)) (encodeURIComponent (host newURL)))
       (encodeURIComponent (lastTwoLabels upstreamURL)) (encodeURIComponent (lastTwoLabels newURL))"
  by (simp add: rewriteCookie_def cookieRewriters_def)

lemma set_rewriteCookie:
  "set (rewriteCookie uu nu c)
     \<subseteq> set c \<union> set (encodeURIComponent (host nu)) \<union> set (encodeURIComponent (lastTwoLabels nu))"
proof -
  let ?a = "replaceAll (trimStart c) (encodeURIComponent (host uu)) (encodeURIComponent (host nu))"
  have "set ?a \<subseteq> set (trimStart c) \<union> set (encodeURIComponent (host nu))"
    by (rule set_replaceAll)
  with set_trimStart [of c] have a: "set ?a \<subseteq> set c \<union> set (encodeURIComponent (host nu))"
    by blast
  have "set (rewriteCookie uu nu c) \<subseteq> set ?a \<union> set (encodeURIComponent (lastTwoLabels nu))"
    unfolding rewriteCookie_passes by (rule set_replaceAll)
  with a show ?thesis by blast
qed

lemma valid_value_rewriteCookie:
  assumes "valid_value c"
  shows "valid_value (normalize_value (rewriteCookie uu nu c))"
proof -
  have "valid_value (c @ encodeURIComponent (host nu) @ encodeURIComponent (lastTwoLabels nu))"
    using assms by (simp add: valid_value_append valid_value_encodeURIComponent)
  moreover have "set (normalize_value (rewriteCookie uu nu c))
      \<subseteq> set (c @ encodeURIComponent (host nu) @ encodeURIComponent (lastTwoLabels nu))"
    using set_normalize_value [of "rewriteCookie uu nu c"] set_rewriteCookie [of uu nu c]
    by auto
  ultimately show ?thesis by (rule valid_value_subset [rotated])
qed

lemma rewriteCookieDomain_Some:
  assumes "headers_get hs ''Set-Cookie'' = Some sc" and "valid_value sc"
  shows "rewriteCookieDomain hs uu nu =
     Some (headers_delete hs ''Set-Cookie''
       @ map (\<lambda>c. (''Set-Cookie'', normalize_value (rewriteCookie uu nu c))) (split sc CHR '',''))"
proof -
  have "list_all (\<lambda>c. valid_value (normalize_value (rewriteCookie uu nu c))) (split sc CHR '','')"
    unfolding list_all_iff
  proof
    fix c assume "c \<in> set (split sc CHR '','')"
    then have "set c \<subseteq> set sc" by (rule set_split)
    then have "valid_value c" using assms(2) by (rule valid_value_subset)
    then show "valid_value (normalize_value (rewriteCookie uu nu c))"
      by (rule valid_value_rewriteCookie)
  qed
  then show ?thesis
    by (simp add: rewriteCookieDomain_def assms(1) forEach_append)
qed

lemma rewriteLocation_Some:
  assumes "headers_get hs ''Location'' = Some l" and "valid_value l" and "valid_value newOrigin"
  shows "rewriteLocation hs upstreamHost newOrigin =
     Some (set_first hs ''Location'' (normalize_value (replace l upstreamHost newOrigin)))"
proof -
  have "valid_value (l @ newOrigin)" using assms by (simp add: valid_value_append)
  moreover have "set (normalize_value (replace l upstreamHost newOrigin)) \<subseteq> set (l @ newOrigin)"
    using set_normalize_value [of "replace l upstreamHost newOrigin"]
      set_replace [of l upstreamHost newOrigin] by auto
  ultimately have "valid_value (normalize_value (replace l upstreamHost newOrigin))"
    by (rule valid_value_subset [rotated])
  then show ?thesis
    by (simp add: rewriteLocation_def assms(1) headers_set_def)
qed

lemma names_differ:
  "\<not> same_name ''Set-Cookie'' ''Location''"
  "\<not> same_name ''Location'' ''Set-Cookie''"
  "\<not> same_name ''Set-Cookie'' ''Content-Type''"
  "\<not> same_name ''Location'' ''Content-Type''"
  by (simp_all add: same_name_def byte_lowercase_def lower_char_def)

lemma headers_has_get: "headers_has hs n \<longleftrightarrow> headers_get hs n \<noteq> None"
  by (simp add: headers_has_def headers_get_def)

lemma headers_get_cong:
  "header_values hs n = header_values hs' n \<Longrightarrow> headers_get hs n = headers_get hs' n"
  by (simp add: headers_get_def)

lemma headers_get_None_values: "headers_get hs n = None \<longleftrightarrow> header_values hs n = []"
  by (simp add: headers_get_def)

lemma rewriteBody_bytes:
  "map_option (body_bytes P) (rewriteBody P r upstreamOrigin newOrigin) =
     (case body r of
        None \<Rightarrow> None
      | Some b \<Rightarrow>
          (case headers_get (headers r) ''Content-Type'' of
             None \<Rightarrow> Some b
           | Some contentType \<Rightarrow>
               if startsWith contentType ''text/''
               then Some (text_encode P (replaceAll (text_decode P b) upstreamOrigin newOrigin))
               else Some b))"
  by (simp add: rewriteBody_def split: option.splits)

lemma new_Response_rewriteBody_headers:
  "headers (new_Response P (rewriteBody P r upstreamOrigin newOrigin) r) = headers r"
proof -
  have "is_Text (rewriteBody P r upstreamOrigin newOrigin) \<Longrightarrow> headers_has (headers r) ''Content-Type''"
    by (auto simp: rewriteBody_def headers_has_get split: option.splits if_splits)
  then show ?thesis by (auto simp: new_Response_def)
qed

lemma cookie_step:
  assumes hv: "list_all (\<lambda>h. valid_value (snd h)) hs"
  obtains h1 where
    "(if headers_has hs ''Set-Cookie''
      then rewriteCookieDomain hs uu nu
      else Some hs) = Some h1"
    "\<And>m. header_values h1 m =
       (if same_name ''Set-Cookie'' m then
          (case headers_get hs ''Set-Cookie'' of
             None \<Rightarrow> []
           | Some sc \<Rightarrow> map (\<lambda>c. normalize_value (rewriteCookie uu nu c)) (split sc CHR '',''))
        else header_values hs m)"
proof (cases "headers_get hs ''Set-Cookie''")
  case None
  then have v: "header_values hs ''Set-Cookie'' = []" by (simp add: headers_get_None_values)
  show ?thesis
  proof (rule that [of hs])
    show "(if headers_has hs ''Set-Cookie''
      then rewriteCookieDomain hs uu nu
      else Some hs) = Some hs"
      using None by (simp add: headers_has_get)
  next
    fix m
    show "header_values hs m =
       (if same_name ''Set-Cookie'' m then
          (case headers_get hs ''Set-Cookie'' of
             None \<Rightarrow> []
           | Some sc \<Rightarrow> map (\<lambda>c. normalize_value (rewriteCookie uu nu c)) (split sc CHR '',''))
        else header_values hs m)"
      using None v header_values_same_name [of "''Set-Cookie''" m hs] by simp
  qed
next
  case (Some sc)
  with hv have "valid_value sc" by (rule valid_headers_get)
  with Some have rc: "rewriteCookieDomain hs uu nu =
     Some (headers_delete hs ''Set-Cookie''
       @ map (\<lambda>c. (''Set-Cookie'', normalize_value (rewriteCookie uu nu c))) (split sc CHR '',''))"
    by (rule rewriteCookieDomain_Some)
  show ?thesis
  proof (rule that)
    show "(if headers_has hs ''Set-Cookie''
      then rewriteCookieDomain hs uu nu
      else Some hs) = Some (headers_delete hs ''Set-Cookie''
       @ map (\<lambda>c. (''Set-Cookie'', normalize_value (rewriteCookie uu nu c))) (split sc CHR '',''))"
      using Some rc by (simp add: headers_has_get)
  next
    fix m
    show "header_values (headers_delete hs ''Set-Cookie''
       @ map (\<lambda>c. (''Set-Cookie'', normalize_value (rewriteCookie uu nu c))) (split sc CHR '','')) m =
       (if same_name ''Set-Cookie'' m then
          (case headers_get hs ''Set-Cookie'' of
             None \<Rightarrow> []
           | Some sc \<Rightarrow> map (\<lambda>c. normalize_value (rewriteCookie uu nu c)) (split sc CHR '',''))
        else header_values hs m)"
      by (simp add: Some header_values_append header_values_delete header_values_map_name)
  qed
qed

lemma location_step:
  assumes hv: "valid_value newOrigin"
    and l: "\<forall>l. headers_get hs ''Location'' = Some l \<longrightarrow> valid_value l"
  obtains h2 where
    "(if headers_has hs ''Location'' then rewriteLocation hs upstreamOrigin newOrigin else Some hs)
       = Some h2"
    "\<And>m. header_values h2 m =
       (if same_name ''Location'' m then
          (case headers_get hs ''Location'' of
             None \<Rightarrow> []
           | Some l \<Rightarrow> [normalize_value (replace l upstreamOrigin newOrigin)])
        else header_values hs m)"
proof (cases "headers_get hs ''Location''")
  case None
  then have v: "header_values hs ''Location'' = []" by (simp add: headers_get_None_values)
  show ?thesis
  proof (rule that [of hs])
    show "(if headers_has hs ''Location'' then rewriteLocation hs upstreamOrigin newOrigin else Some hs)
       = Some hs"
      using None by (simp add: headers_has_get)
  next
    fix m
    show "header_values hs m =
       (if same_name ''Location'' m then
          (case headers_get hs ''Location'' of
             None \<Rightarrow> []
           | Some l \<Rightarrow> [normalize_value (replace l upstreamOrigin newOrigin)])
        else header_values hs m)"
      using None v header_values_same_name [of "''Location''" m hs] by simp
  qed
next
  case (Some loc)
  with l have "valid_value loc" by blast
  with Some have rl: "rewriteLocation hs upstreamOrigin newOrigin =
     Some (set_first hs ''Location'' (normalize_value (replace loc upstreamOrigin newOrigin)))"
    using hv by (rule rewriteLocation_Some)
  show ?thesis
  proof (rule that)
    show "(if headers_has hs ''Location'' then rewriteLocation hs upstreamOrigin newOrigin else Some hs)
       = Some (set_first hs ''Location'' (normalize_value (replace loc upstreamOrigin newOrigin)))"
      using Some rl by (simp add: headers_has_get)
  next
    fix m
    show "header_values (set_first hs ''Location'' (normalize_value (replace loc upstreamOrigin newOrigin))) m =
       (if same_name ''Location'' m then
          (case headers_get hs ''Location'' of
             None \<Rightarrow> []
           | Some l \<Rightarrow> [normalize_value (replace l upstreamOrigin newOrigin)])
        else header_values hs m)"
      by (simp add: Some header_values_set_first)
  qed
qed

lemma newResponseRewriter_observe:
  assumes up: "URL_parse P (''https://'' @ upstreamHost) = Some uu"
    and new: "URL_parse P newOrigin = Some nu"
    and hv: "list_all (\<lambda>h. valid_value (snd h)) (headers r)"
    and no: "valid_value newOrigin"
  obtains out where
    "newResponseRewriter P upstreamHost newOrigin r = Some out"
    "status out = status r"
    "body out = map_option (body_bytes P) (rewriteBody P r (origin uu) newOrigin)"
    "\<And>m. header_values (headers out) m =
       (if same_name ''Set-Cookie'' m then
          (case headers_get (headers r) ''Set-Cookie'' of
             None \<Rightarrow> []
           | Some sc \<Rightarrow> map (\<lambda>c. normalize_value (rewriteCookie uu nu c)) (split sc CHR '',''))
        else if same_name ''Location'' m then
          (case headers_get (headers r) ''Location'' of
             None \<Rightarrow> []
           | Some l \<Rightarrow> [normalize_value (replace l (origin uu) newOrigin)])
        else header_values (headers r) m)"
proof -
  let ?res = "new_Response P (rewriteBody P r (origin uu) newOrigin) r"
  have hres: "headers ?res = headers r" by (rule new_Response_rewriteBody_headers)
  obtain h1 where h1:
    "(if headers_has (headers r) ''Set-Cookie''
      then rewriteCookieDomain (headers r) uu nu
      else Some (headers r)) = Some h1"
    and v1: "\<And>m. header_values h1 m =
       (if same_name ''Set-Cookie'' m then
          (case headers_get (headers r) ''Set-Cookie'' of
             None \<Rightarrow> []
           | Some sc \<Rightarrow> map (\<lambda>c. normalize_value (rewriteCookie uu nu c)) (split sc CHR '',''))
        else header_values (headers r) m)"
    by (rule cookie_step [where uu = uu and nu = nu, OF hv]) (rule that)
  have loc: "headers_get h1 ''Location'' = headers_get (headers r) ''Location''"
    by (rule headers_get_cong) (simp add: v1 names_differ)
  have vl: "\<forall>l. headers_get h1 ''Location'' = Some l \<longrightarrow> valid_value l"
    using hv unfolding loc by (blast intro: valid_headers_get)
  obtain h2 where h2:
    "(if headers_has h1 ''Location'' then rewriteLocation h1 (origin uu) newOrigin else Some h1)
       = Some h2"
    and v2: "\<And>m. header_values h2 m =
       (if same_name ''Location'' m then
          (case headers_get h1 ''Location'' of
             None \<Rightarrow> []
           | Some l \<Rightarrow> [normalize_value (replace l (origin uu) newOrigin)])
        else header_values h1 m)"
    by (rule location_step [where hs = h1 and upstreamOrigin = "origin uu", OF no vl]) (rule that)
  show ?thesis
  proof (rule that [of "?res\<lparr>headers := h2\<rparr>"])
    show "newResponseRewriter P upstreamHost newOrigin r = Some (?res\<lparr>headers := h2\<rparr>)"
      unfolding newResponseRewriter_def
      by (simp only: up new hres Let_def Option.bind.bind_lunit h1 h2)
    show "status (?res\<lparr>headers := h2\<rparr>) = status r" by (simp add: new_Response_def)
    show "body (?res\<lparr>headers := h2\<rparr>) = map_option (body_bytes P) (rewriteBody P r (origin uu) newOrigin)"
      by (simp add: new_Response_def)
  next
    fix m
    have sl: "same_name ''Set-Cookie'' m \<Longrightarrow> \<not> same_name ''Location'' m"
      using names_differ(1) by (auto simp: same_name_def)
    show "header_values (headers (?res\<lparr>headers := h2\<rparr>)) m =
       (if same_name ''Set-Cookie'' m then
          (case headers_get (headers r) ''Set-Cookie'' of
             None \<Rightarrow> []
           | Some sc \<Rightarrow> map (\<lambda>c. normalize_value (rewriteCookie uu nu c)) (split sc CHR '',''))
        else if same_name ''Location'' m then
          (case headers_get (headers r) ''Location'' of
             None \<Rightarrow> []
           | Some l \<Rightarrow> [normalize_value (replace l (origin uu) newOrigin)])
        else header_values (headers r) m)"
      using sl by (simp add: v2 v1 loc)
  qed
qed

lemma headers_get_same_name: "same_name n m \<Longrightarrow> headers_get hs n = headers_get hs m"
  by (simp add: headers_get_def header_values_same_name)

subsection \<open>The rewriter of the request\<close>

lemma valid_value_normalize: "valid_value v \<Longrightarrow> valid_value (normalize_value v)"
  using set_normalize_value [of v] by (rule valid_value_subset)

lemma newRequestRewriter_Some:
  assumes "valid_value (appOrigin cfg)" and "valid_value (apiKey (ory cfg))"
  shows "newRequestRewriter P cfg req =
     Some (req\<lparr>req_url := set_hostname P (req_url req) (projectHost (ory cfg)),
               req_headers :=
                 set_first
                   (set_first
                      (set_first
                         (set_first (req_headers req) ''Ory-No-Custom-Domain-Redirect'' ''true'')
                         ''Ory-Base-URL-Rewrite'' (normalize_value (appOrigin cfg)))
                      ''Ory-Base-URL-Rewrite-Token'' (normalize_value (apiKey (ory cfg))))
                   ''Ory-Network-Ingress'' ''T''\<rparr>)"
proof -
  have t: "normalize_value ''true'' = ''true''" "normalize_value ''T'' = ''T''"
    by (simp_all add: normalize_value_def http_whitespace_def)
  have v: "valid_value ''true''" "valid_value ''T''"
    by (simp_all add: valid_value_def)
  from assms have "valid_value (normalize_value (appOrigin cfg))"
    "valid_value (normalize_value (apiKey (ory cfg)))"
    by (simp_all add: valid_value_normalize)
  then show ?thesis
    by (simp add: newRequestRewriter_def headers_set_def new_Request_def t v Let_def)
qed

lemma control_names_differ:
  "\<not> same_name ''Ory-Base-URL-Rewrite'' ''Ory-No-Custom-Domain-Redirect''"
  "\<not> same_name ''Ory-Base-URL-Rewrite-Token'' ''Ory-No-Custom-Domain-Redirect''"
  "\<not> same_name ''Ory-Network-Ingress'' ''Ory-No-Custom-Domain-Redirect''"
  "\<not> same_name ''Ory-Base-URL-Rewrite-Token'' ''Ory-Base-URL-Rewrite''"
  "\<not> same_name ''Ory-Network-Ingress'' ''Ory-Base-URL-Rewrite''"
  "\<not> same_name ''Ory-Network-Ingress'' ''Ory-Base-URL-Rewrite-Token''"
  by (simp_all add: same_name_def byte_lowercase_def lower_char_def)

lemma headers_get_single: "header_values hs n = [v] \<Longrightarrow> headers_get hs n = Some v"
  by (simp add: headers_get_def)

subsection \<open>Cookies\<close>






lemma rewriteCookie_absent:
  assumes "\<not> sublist (encodeURIComponent (host uu)) (trimStart c)"
    and "\<not> sublist (encodeURIComponent (lastTwoLabels uu)) (trimStart c)"
  shows "rewriteCookie uu nu c = trimStart c"
  using assms by (simp add: rewriteCookie_passes replaceAll_absent)

lemma rewriteCookie_no_comma:
  assumes "CHR '','' \<notin> set c"
  shows "CHR '','' \<notin> set (normalize_value (rewriteCookie uu nu c))"
proof -
  have "set (normalize_value (rewriteCookie uu nu c))
      \<subseteq> set c \<union> set (encodeURIComponent (host nu)) \<union> set (encodeURIComponent (lastTwoLabels nu))"
    using set_normalize_value [of "rewriteCookie uu nu c"] set_rewriteCookie [of uu nu c]
    by blast
  with assms encodeURIComponent_no_comma [of "host nu"]
    encodeURIComponent_no_comma [of "lastTwoLabels nu"]
  show ?thesis by blast
qed

lemma trimStart_space: "trimStart (CHR '' '' # c) = trimStart c"
  by (simp add: trimStart_def js_whitespace_def)

lemma split_join_cookies:
  assumes "list_all (\<lambda>c. CHR '','' \<notin> set c) cs" and "cs \<noteq> []"
  shows "map trimStart (split (join cs '', '') CHR '','') = map trimStart cs"
  using assms
proof (induction cs "'', ''" rule: join.induct)
  case 1
  then show ?case by simp
next
  case (2 x)
  then show ?case by (simp add: split_no_sep)
next
  case (3 x y xs)
  from 3 have ih: "map trimStart (split (join (y # xs) '', '') CHR '','') = map trimStart (y # xs)"
    by simp
  from 3(2) have x: "CHR '','' \<notin> set x" by simp
  have "split (join (x # y # xs) '', '') CHR '','' =
      x # split (CHR '' '' # join (y # xs) '', '') CHR '',''"
    using split_append_sep [OF x, of "CHR '' '' # join (y # xs) '', ''"] by simp
  moreover have "map trimStart (split (CHR '' '' # s) CHR '','') = map trimStart (split s CHR '','')" for s
    by (cases "split s CHR '',''") (simp_all add: split_not_Nil trimStart_space)
  ultimately show ?case using ih by simp
qed

lemma rewriteCookie_trimStart: "rewriteCookie uu nu (trimStart c) = rewriteCookie uu nu c"
  by (simp add: rewriteCookie_def trimStart_def)

lemma map_rewriteCookie_trimStart:
  "map (\<lambda>c. normalize_value (rewriteCookie uu nu c)) (map trimStart xs)
     = map (\<lambda>c. normalize_value (rewriteCookie uu nu c)) xs"
  by (simp add: rewriteCookie_trimStart)

lemma cookies_unchanged:
  assumes "\<forall>c\<in>set (header_values hs ''Set-Cookie'').
       CHR '','' \<notin> set c \<and> trimStart c = c \<and> normalize_value c = c
       \<and> \<not> sublist (encodeURIComponent (host uu)) c
       \<and> \<not> sublist (encodeURIComponent (lastTwoLabels uu)) c"
  shows "(case headers_get hs ''Set-Cookie'' of
            None \<Rightarrow> []
          | Some sc \<Rightarrow> map (\<lambda>c. normalize_value (rewriteCookie uu nu c)) (split sc CHR '',''))
         = header_values hs ''Set-Cookie''"
proof (cases "header_values hs ''Set-Cookie'' = []")
  case True
  then show ?thesis by (simp add: headers_get_def)
next
  case False
  let ?cs = "header_values hs ''Set-Cookie''"
  let ?f = "\<lambda>c. normalize_value (rewriteCookie uu nu c)"
  from assms have nc: "list_all (\<lambda>c. CHR '','' \<notin> set c) ?cs"
    by (simp add: list_all_iff)
  from assms have ts: "map trimStart ?cs = ?cs"
    by (simp add: map_idI)
  have id: "?f c = c" if "c \<in> set ?cs" for c
  proof -
    from assms that have "trimStart c = c" "normalize_value c = c"
      "\<not> sublist (encodeURIComponent (host uu)) (trimStart c)"
      "\<not> sublist (encodeURIComponent (lastTwoLabels uu)) (trimStart c)"
      by simp_all
    then show ?thesis by (simp add: rewriteCookie_absent)
  qed
  have "map ?f (split (join ?cs '', '') CHR '','')
      = map ?f (map trimStart (split (join ?cs '', '') CHR '',''))"
    by (simp only: map_rewriteCookie_trimStart)
  also have "\<dots> = map ?f (map trimStart ?cs)"
    by (simp only: split_join_cookies [OF nc False])
  also have "\<dots> = map ?f ?cs" by (simp only: ts)
  also have "\<dots> = ?cs" using id by (simp add: map_idI)
  finally show ?thesis using False by (simp add: headers_get_def)
qed



subsection \<open>The platform of the examples\<close>

lemma example_parses:
  "URL_parse example_platform (''https://'' @ ''upstream.example.com'') = Some upstream_url"
  "URL_parse example_platform ''https://app.example.org'' = Some public_url"
  by (simp_all add: example_platform_def example_URL_def)

lemma example_origin_valid:
  "valid_value ''https://app.example.org''" "CHR 0x24 \<notin> set ''https://app.example.org''"
  by (simp_all add: valid_value_def)

section \<open>The specified properties\<close>

subsection \<open>The handler and the request rewriter\<close>

text \<open>
  C2, as amended.  A request whose path is exactly \<^verbatim>\<open>/\<close> is answered by the handler
  itself with status 303 and a Location that is the URL of the request with its path
  replaced by \<^verbatim>\<open>/ui\<close>: scheme, host, port, query and fragment are those of the request,
  and the configured public origin is not read.  No request is handed to the upstream
  invoker.
\<close>

theorem root_shortcut_redirects_on_request_url:
  assumes "pathname (req_url req) = ''/''"
  shows "newHandler P cfg fetch req =
     (Some \<lparr>status = 303,
            headers =
              [(''Location'',
                scheme (req_url req) @ ''://'' @ host (req_url req) @ ''/ui''
                  @ (case query (req_url req) of None \<Rightarrow> [] | Some q \<Rightarrow> CHR ''?'' # q)
                  @ (case fragment (req_url req) of None \<Rightarrow> [] | Some f \<Rightarrow> CHR ''#'' # f))],
            body = None\<rparr>,
      [])"
  using assms by (simp add: newHandler_def Response_redirect_def href_def host_def Let_def)

theorem root_shortcut_witness:
  "pathname (req_url public_root_request) = ''/'' \<and>
   newHandler example_platform example_config example_fetch public_root_request =
     (Some \<lparr>status = 303, headers = [(''Location'', ''https://app.example.org/ui'')], body = None\<rparr>,
      [])"
proof -
  have p: "pathname (req_url public_root_request) = ''/''"
    by (simp add: public_root_request_def)
  from root_shortcut_redirects_on_request_url [OF p, of example_platform example_config example_fetch]
  show ?thesis
    by (simp add: public_root_request_def host_def)
qed

text \<open>
  C2 as the specification states it fails where the request does not arrive on the public
  origin: a local request for \<^verbatim>\<open>http://localhost:8080/\<close> is redirected to
  \<^verbatim>\<open>http://localhost:8080/ui\<close>, not to \<^verbatim>\<open>https://app.example.org/ui\<close>.  On the
  public origin, a query of the request is carried over to the Location.
\<close>

theorem root_shortcut_counterexample:
  "newHandler example_platform example_config example_fetch local_root_request =
     (Some \<lparr>status = 303, headers = [(''Location'', ''http://localhost:8080/ui'')], body = None\<rparr>,
      [])
   \<and> headers_get [(''Location'', ''http://localhost:8080/ui'')] ''Location''
       \<noteq> Some (appOrigin example_config @ ''/ui'')
   \<and> newHandler example_platform example_config example_fetch public_root_query_request =
     (Some \<lparr>status = 303, headers = [(''Location'', ''https://app.example.org/ui?flow=1'')],
            body = None\<rparr>,
      [])"
  by (simp add: newHandler_def Response_redirect_def href_def host_def Let_def
      local_root_request_def public_root_query_request_def example_config_def headers_get_def
      header_values_def same_name_def)

text \<open>
  C3.  The request rewriter replaces the host of the URL by the upstream host and leaves
  the scheme, the path, the query and the fragment of the inbound URL as they are (and the
  port with them: the source assigns \<^verbatim>\<open>url.hostname\<close>).  The configuration is taken to
  be well formed: the upstream host is a host name that the \<^verbatim>\<open>hostname\<close> setter accepts
  as it is written, and the two configured header values can be sent.
\<close>

theorem request_rewriter_replaces_host_only:
  assumes "hostname_state P (projectHost (ory cfg)) = Some (projectHost (ory cfg))"
    and "valid_value (appOrigin cfg)" and "valid_value (apiKey (ory cfg))"
  shows "\<exists>proxyReq. newRequestRewriter P cfg req = Some proxyReq
     \<and> hostname (req_url proxyReq) = projectHost (ory cfg)
     \<and> scheme (req_url proxyReq) = scheme (req_url req)
     \<and> pathname (req_url proxyReq) = pathname (req_url req)
     \<and> query (req_url proxyReq) = query (req_url req)
     \<and> fragment (req_url proxyReq) = fragment (req_url req)
     \<and> url_port (req_url proxyReq) = url_port (req_url req)"
  using assms(1) newRequestRewriter_Some [OF assms(2,3), of P req]
  by (simp add: set_hostname_def)

theorem request_rewriter_replaces_host_only_witness:
  "hostname_state example_platform (projectHost (ory example_config))
     = Some (projectHost (ory example_config))
   \<and> valid_value (appOrigin example_config) \<and> valid_value (apiKey (ory example_config))
   \<and> (\<exists>proxyReq. newRequestRewriter example_platform example_config public_login_request = Some proxyReq
     \<and> hostname (req_url proxyReq) = ''upstream.example.com''
     \<and> scheme (req_url proxyReq) = ''https''
     \<and> pathname (req_url proxyReq) = ''/self-service/login''
     \<and> query (req_url proxyReq) = Some ''flow=1''
     \<and> fragment (req_url proxyReq) = None
     \<and> url_port (req_url proxyReq) = None)"
proof -
  have h: "hostname_state example_platform (projectHost (ory example_config))
     = Some (projectHost (ory example_config))"
    by (simp add: example_platform_def example_config_def example_hostname_state_def)
  have v: "valid_value (appOrigin example_config)" "valid_value (apiKey (ory example_config))"
    by (simp_all add: example_config_def valid_value_def)
  from request_rewriter_replaces_host_only [OF h v, of public_login_request] h v
  show ?thesis
    by (simp add: example_config_def public_login_request_def)
qed

text \<open>
  C8.  Whatever headers the inbound request carried, the outbound request has exactly one
  header of each of the four control names, with the specified value: the flag
  \<^verbatim>\<open>true\<close>, the public origin, the API key and the marker \<^verbatim>\<open>T\<close>; \<^verbatim>\<open>get\<close> of the
  name therefore returns that value alone.  The configured values are taken to be header
  values as the platform stores them (no NUL, LF or CR, no white space at either end).
\<close>

theorem request_rewriter_sets_control_headers:
  assumes "valid_value (appOrigin cfg)" and "normalize_value (appOrigin cfg) = appOrigin cfg"
    and "valid_value (apiKey (ory cfg))" and "normalize_value (apiKey (ory cfg)) = apiKey (ory cfg)"
  shows "\<exists>proxyReq. newRequestRewriter P cfg req = Some proxyReq
     \<and> header_values (req_headers proxyReq) ''Ory-No-Custom-Domain-Redirect'' = [''true'']
     \<and> header_values (req_headers proxyReq) ''Ory-Base-URL-Rewrite'' = [appOrigin cfg]
     \<and> header_values (req_headers proxyReq) ''Ory-Base-URL-Rewrite-Token'' = [apiKey (ory cfg)]
     \<and> header_values (req_headers proxyReq) ''Ory-Network-Ingress'' = [''T'']
     \<and> headers_get (req_headers proxyReq) ''Ory-No-Custom-Domain-Redirect'' = Some ''true''
     \<and> headers_get (req_headers proxyReq) ''Ory-Base-URL-Rewrite'' = Some (appOrigin cfg)
     \<and> headers_get (req_headers proxyReq) ''Ory-Base-URL-Rewrite-Token'' = Some (apiKey (ory cfg))
     \<and> headers_get (req_headers proxyReq) ''Ory-Network-Ingress'' = Some ''T''"
  using newRequestRewriter_Some [OF assms(1,3), of P req] assms(2,4)
  by (simp add: header_values_set_first control_names_differ same_name_refl headers_get_single)

theorem request_rewriter_sets_control_headers_witness:
  "valid_value (appOrigin example_config)
   \<and> normalize_value (appOrigin example_config) = appOrigin example_config
   \<and> valid_value (apiKey (ory example_config))
   \<and> normalize_value (apiKey (ory example_config)) = apiKey (ory example_config)
   \<and> header_values (req_headers public_login_request) ''Ory-Base-URL-Rewrite''
        = [''https://other.example'', ''https://third.example'']
   \<and> (\<exists>proxyReq. newRequestRewriter example_platform example_config public_login_request = Some proxyReq
     \<and> header_values (req_headers proxyReq) ''Ory-No-Custom-Domain-Redirect'' = [''true'']
     \<and> header_values (req_headers proxyReq) ''Ory-Base-URL-Rewrite'' = [''https://app.example.org'']
     \<and> header_values (req_headers proxyReq) ''Ory-Base-URL-Rewrite-Token'' = [''secret'']
     \<and> header_values (req_headers proxyReq) ''Ory-Network-Ingress'' = [''T''])"
proof -
  have v: "valid_value (appOrigin example_config)" "valid_value (apiKey (ory example_config))"
    by (simp_all add: example_config_def valid_value_def)
  have n: "normalize_value (appOrigin example_config) = appOrigin example_config"
    "normalize_value (apiKey (ory example_config)) = apiKey (ory example_config)"
    by (simp_all add: example_config_def normalize_value_def http_whitespace_def)
  have i: "header_values (req_headers public_login_request) ''Ory-Base-URL-Rewrite''
        = [''https://other.example'', ''https://third.example'']"
    by code_simp
  from request_rewriter_sets_control_headers
         [OF v(1) n(1) v(2) n(2), of example_platform public_login_request] v n i
  show ?thesis
    by (simp add: example_config_def) blast
qed

text \<open>
  C9, as amended.  For a request that is proxied, exactly one request is handed to the
  upstream invoker.  Its URL has the upstream host as host name and the scheme of the
  inbound URL, so it goes over HTTPS exactly when the inbound URL is an https URL; the
  port, the path and the query, the method and the body are those of the inbound request.
\<close>

theorem proxied_request_keeps_scheme:
  assumes "pathname (req_url req) \<noteq> ''/''"
    and "hostname_state P (projectHost (ory cfg)) = Some (projectHost (ory cfg))"
    and "valid_value (appOrigin cfg)" and "valid_value (apiKey (ory cfg))"
  shows "\<exists>proxyReq. snd (newHandler P cfg fetch req) = [proxyReq]
     \<and> hostname (req_url proxyReq) = projectHost (ory cfg)
     \<and> scheme (req_url proxyReq) = scheme (req_url req)
     \<and> url_port (req_url proxyReq) = url_port (req_url req)
     \<and> pathname (req_url proxyReq) = pathname (req_url req)
     \<and> query (req_url proxyReq) = query (req_url req)
     \<and> req_method proxyReq = req_method req
     \<and> req_body proxyReq = req_body req"
  using assms(1,2) newRequestRewriter_Some [OF assms(3,4), of P req]
  by (cases "fetch (req\<lparr>req_url := set_hostname P (req_url req) (projectHost (ory cfg)),
               req_headers :=
                 set_first
                   (set_first
                      (set_first
                         (set_first (req_headers req) ''Ory-No-Custom-Domain-Redirect'' ''true'')
                         ''Ory-Base-URL-Rewrite'' (normalize_value (appOrigin cfg)))
                      ''Ory-Base-URL-Rewrite-Token'' (normalize_value (apiKey (ory cfg))))
                   ''Ory-Network-Ingress'' ''T''\<rparr>)")
     (simp_all add: newHandler_def Let_def set_hostname_def)

theorem proxied_request_keeps_scheme_witness:
  "pathname (req_url public_login_request) \<noteq> ''/''
   \<and> hostname_state example_platform (projectHost (ory example_config))
       = Some (projectHost (ory example_config))
   \<and> valid_value (appOrigin example_config) \<and> valid_value (apiKey (ory example_config))
   \<and> (\<exists>proxyReq. snd (newHandler example_platform example_config example_fetch public_login_request)
         = [proxyReq]
     \<and> hostname (req_url proxyReq) = ''upstream.example.com''
     \<and> scheme (req_url proxyReq) = ''https''
     \<and> url_port (req_url proxyReq) = None
     \<and> pathname (req_url proxyReq) = ''/self-service/login''
     \<and> query (req_url proxyReq) = Some ''flow=1''
     \<and> req_method proxyReq = ''POST''
     \<and> req_body proxyReq = Some ''identifier=a'')"
proof -
  have p: "pathname (req_url public_login_request) \<noteq> ''/''"
    by (simp add: public_login_request_def)
  have h: "hostname_state example_platform (projectHost (ory example_config))
     = Some (projectHost (ory example_config))"
    by (simp add: example_platform_def example_config_def example_hostname_state_def)
  have v: "valid_value (appOrigin example_config)" "valid_value (apiKey (ory example_config))"
    by (simp_all add: example_config_def valid_value_def)
  from proxied_request_keeps_scheme [OF p h v, of example_fetch] p h v
  show ?thesis
    by (simp add: example_config_def public_login_request_def)
qed

text \<open>
  C9 as the specification states it fails for a request that arrives over plain HTTP, as every request
  of a local server does: the request for \<^verbatim>\<open>http://localhost:8080/self-service/login\<close>
  goes upstream with the scheme \<^verbatim>\<open>http\<close> (and the port 8080).
\<close>

theorem proxied_request_counterexample:
  "map req_url (snd (newHandler example_platform example_config example_fetch local_login_request))
     = [\<lparr>scheme = ''http'', hostname = ''upstream.example.com'', url_port = Some ''8080'',
         pathname = ''/self-service/login'', query = Some ''flow=1'', fragment = None\<rparr>]
   \<and> ''http'' \<noteq> ''https''"
  by (simp add: newHandler_def newRequestRewriter_def new_Request_def set_hostname_def Let_def
      headers_set_def normalize_value_def http_whitespace_def valid_value_def
      local_login_request_def example_config_def example_platform_def
      example_hostname_state_def example_fetch_def)

subsection \<open>The response rewriter\<close>

text \<open>
  C1.  The example of the specification holds: the Location of the 302 response is
  rewritten to the public origin.  The general statement does not: \<^verbatim>\<open>rewriteLocation\<close>
  calls \<^verbatim>\<open>replace\<close>, which replaces the first occurrence only, where the body and the
  cookie rewriters call \<^verbatim>\<open>replaceAll\<close>.  A Location with the upstream origin also in
  its query keeps the second occurrence.
\<close>

theorem location_rewrite_first_occurrence_only:
  "newResponseRewriter example_platform ''upstream.example.com'' ''https://app.example.org''
     redirect_response
   = Some \<lparr>status = 302,
            headers = [(''Location'', ''https://app.example.org/callback?x=1'')],
            body = None\<rparr>
   \<and> newResponseRewriter example_platform ''upstream.example.com'' ''https://app.example.org''
     redirect_with_return_response
   = Some \<lparr>status = 302,
            headers =
              [(''Location'',
                ''https://app.example.org/login?return_to=https://upstream.example.com/settings'')],
            body = None\<rparr>
   \<and> substitute_all ''https://upstream.example.com'' ''https://app.example.org''
       ''https://upstream.example.com/login?return_to=https://upstream.example.com/settings''
     = ''https://app.example.org/login?return_to=https://app.example.org/settings''"
  by code_simp

text \<open>
  C4.  For a response with a body: when the Content-Type starts with \<^verbatim>\<open>text/\<close> the body
  is decoded, every occurrence of the upstream origin \<^verbatim>\<open>https://\<close>host is replaced by the
  public origin, literally and case-sensitively, and the result is encoded again; with any
  other Content-Type, \<^verbatim>\<open>application/octet-stream\<close> among them, or with none, the body
  bytes are those of the upstream response.  The public origin is taken to contain no
  dollar sign (in a replacement string the dollar sign is a reference), and the headers of
  the upstream response and the public origin to be free of NUL, LF and CR.
\<close>

theorem body_rewrite_scope:
  assumes "URL_parse P (''https://'' @ upstreamHost) = Some uu"
    and "scheme uu = ''https''"
    and "URL_parse P newOrigin = Some nu"
    and "list_all (\<lambda>h. valid_value (snd h)) (headers r)"
    and "valid_value newOrigin"
    and "CHR 0x24 \<notin> set newOrigin"
    and "body r = Some b"
  shows "\<exists>out. newResponseRewriter P upstreamHost newOrigin r = Some out
     \<and> body out =
         (case headers_get (headers r) ''Content-Type'' of
            None \<Rightarrow> Some b
          | Some contentType \<Rightarrow>
              if startsWith contentType ''text/''
              then Some (text_encode P
                     (substitute_all (''https://'' @ host uu) newOrigin (text_decode P b)))
              else Some b)"
proof -
  from assms(2) have o: "origin uu = ''https://'' @ host uu"
    by (simp add: origin_def)
  then have ne: "origin uu \<noteq> []" by simp
  from assms(1,3,4,5) obtain out where
    out: "newResponseRewriter P upstreamHost newOrigin r = Some out"
    and b: "body out = map_option (body_bytes P) (rewriteBody P r (origin uu) newOrigin)"
    by (rule newResponseRewriter_observe)
  have "replaceAll s (origin uu) newOrigin = substitute_all (''https://'' @ host uu) newOrigin s" for s
    using replaceAll_substitute_all [OF ne assms(6), of s] by (simp only: o)
  with b have "body out =
         (case headers_get (headers r) ''Content-Type'' of
            None \<Rightarrow> Some b
          | Some contentType \<Rightarrow>
              if startsWith contentType ''text/''
              then Some (text_encode P
                     (substitute_all (''https://'' @ host uu) newOrigin (text_decode P b)))
              else Some b)"
    by (simp add: rewriteBody_bytes assms(7) split: option.splits)
  with out show ?thesis by blast
qed

theorem body_rewrite_scope_witness:
  "URL_parse example_platform (''https://'' @ ''upstream.example.com'') = Some upstream_url
   \<and> scheme upstream_url = ''https''
   \<and> CHR 0x24 \<notin> set ''https://app.example.org''
   \<and> (\<exists>out. newResponseRewriter example_platform ''upstream.example.com'' ''https://app.example.org''
          html_response = Some out
        \<and> body out = Some ''<a href=https://app.example.org/a>https://app.example.org</a> HTTPS://UPSTREAM.EXAMPLE.COM'')
   \<and> (\<exists>out. newResponseRewriter example_platform ''upstream.example.com'' ''https://app.example.org''
          octet_stream_response = Some out
        \<and> body out = Some ''https://upstream.example.com upstream.example.com'')"
proof -
  have s: "scheme upstream_url = ''https''" by (simp add: upstream_url_def)
  have h1: "list_all (\<lambda>h. valid_value (snd h)) (headers html_response)"
    and b1: "body html_response =
      Some ''<a href=https://upstream.example.com/a>https://upstream.example.com</a> HTTPS://UPSTREAM.EXAMPLE.COM''"
    by (simp_all add: html_response_def valid_value_def)
  have h2: "list_all (\<lambda>h. valid_value (snd h)) (headers octet_stream_response)"
    and b2: "body octet_stream_response = Some ''https://upstream.example.com upstream.example.com''"
    by (simp_all add: octet_stream_response_def valid_value_def)
  have c1: "headers_get (headers html_response) ''Content-Type'' = Some ''text/html; charset=utf-8''"
    and c2: "headers_get (headers octet_stream_response) ''Content-Type''
             = Some ''application/octet-stream''"
    by code_simp+
  have t1: "startsWith ''text/html; charset=utf-8'' ''text/''"
    and t2: "\<not> startsWith ''application/octet-stream'' ''text/''"
    by (simp_all add: startsWith_def)
  have e: "text_encode example_platform
     (substitute_all (''https://'' @ host upstream_url) ''https://app.example.org''
        (text_decode example_platform
           ''<a href=https://upstream.example.com/a>https://upstream.example.com</a> HTTPS://UPSTREAM.EXAMPLE.COM''))
     = ''<a href=https://app.example.org/a>https://app.example.org</a> HTTPS://UPSTREAM.EXAMPLE.COM''"
    by code_simp
  from body_rewrite_scope [OF example_parses(1) s example_parses(2) h1 example_origin_valid b1]
  have w1: "\<exists>out. newResponseRewriter example_platform ''upstream.example.com'' ''https://app.example.org''
          html_response = Some out
        \<and> body out = Some ''<a href=https://app.example.org/a>https://app.example.org</a> HTTPS://UPSTREAM.EXAMPLE.COM''"
    by (simp only: c1 t1 e option.case if_True)
  from body_rewrite_scope [OF example_parses(1) s example_parses(2) h2 example_origin_valid b2]
  have w2: "\<exists>out. newResponseRewriter example_platform ''upstream.example.com'' ''https://app.example.org''
          octet_stream_response = Some out
        \<and> body out = Some ''https://upstream.example.com upstream.example.com''"
    by (simp only: c2 t2 option.case if_False)
  from example_parses(1) s example_origin_valid(2) w1 w2 show ?thesis by blast
qed

text \<open>
  C10.  The body rewriter treats a response as text exactly when the value that
  \<^verbatim>\<open>get("Content-Type")\<close> returns starts with the five code units \<^verbatim>\<open>text/\<close>: then the
  body is the encoded result of \<^verbatim>\<open>replaceAll\<close> on the decoded text, and in every other
  case, \<^verbatim>\<open>application/json\<close> and \<^verbatim>\<open>application/javascript\<close> among them, the body
  bytes pass through, whatever they contain.
\<close>

theorem textual_iff_text_prefix:
  assumes "URL_parse P (''https://'' @ upstreamHost) = Some uu"
    and "URL_parse P newOrigin = Some nu"
    and "list_all (\<lambda>h. valid_value (snd h)) (headers r)"
    and "valid_value newOrigin"
    and "body r = Some b"
  shows "\<exists>out. newResponseRewriter P upstreamHost newOrigin r = Some out
     \<and> body out =
         (if (case headers_get (headers r) ''Content-Type'' of
                None \<Rightarrow> False
              | Some contentType \<Rightarrow> prefix ''text/'' contentType)
          then Some (text_encode P (replaceAll (text_decode P b) (origin uu) newOrigin))
          else Some b)"
proof -
  from assms(1-4) obtain out where
    out: "newResponseRewriter P upstreamHost newOrigin r = Some out"
    and b: "body out = map_option (body_bytes P) (rewriteBody P r (origin uu) newOrigin)"
    by (rule newResponseRewriter_observe)
  from b have "body out =
         (if (case headers_get (headers r) ''Content-Type'' of
                None \<Rightarrow> False
              | Some contentType \<Rightarrow> prefix ''text/'' contentType)
          then Some (text_encode P (replaceAll (text_decode P b) (origin uu) newOrigin))
          else Some b)"
    by (simp add: rewriteBody_bytes assms(5) startsWith_def split: option.splits)
  with out show ?thesis by blast
qed

theorem textual_iff_text_prefix_witness:
  "headers_get (headers json_response) ''Content-Type'' = Some ''application/json''
   \<and> sublist ''https://upstream.example.com'' (the (body json_response))
   \<and> (\<exists>out. newResponseRewriter example_platform ''upstream.example.com'' ''https://app.example.org''
          json_response = Some out
        \<and> body out = body json_response)"
proof -
  have h: "list_all (\<lambda>h. valid_value (snd h)) (headers json_response)"
    and b: "body json_response = Some ''{url:https://upstream.example.com/self-service/login}''"
    by (simp_all add: json_response_def valid_value_def)
  have c: "headers_get (headers json_response) ''Content-Type'' = Some ''application/json''"
    by code_simp
  have p: "\<not> prefix ''text/'' ''application/json''" by simp
  have s: "sublist ''https://upstream.example.com'' (the (body json_response))"
    by code_simp
  from textual_iff_text_prefix [OF example_parses h example_origin_valid(1) b]
  have "\<exists>out. newResponseRewriter example_platform ''upstream.example.com'' ''https://app.example.org''
          json_response = Some out
        \<and> body out = body json_response"
    by (simp only: c p b option.case if_False)
  with c s show ?thesis by blast
qed



text \<open>
  C7, as amended.  When the upstream response has one Set-Cookie header whose value is two
  cookies joined by a comma, and neither cookie contains a comma itself, the rewritten
  response has exactly two Set-Cookie headers: the first cookie rewritten, then the second
  cookie rewritten, each on its own.  Neither contains a comma, so the combined header is
  gone.
\<close>

theorem multi_cookie_preservation:
  assumes "URL_parse P (''https://'' @ upstreamHost) = Some uu"
    and "URL_parse P newOrigin = Some nu"
    and "list_all (\<lambda>h. valid_value (snd h)) (headers r)"
    and "valid_value newOrigin"
    and "header_values (headers r) ''Set-Cookie'' = [c1 @ '','' @ c2]"
    and "CHR '','' \<notin> set c1" and "CHR '','' \<notin> set c2"
  shows "\<exists>out. newResponseRewriter P upstreamHost newOrigin r = Some out
     \<and> header_values (headers out) ''Set-Cookie'' =
         [normalize_value (rewriteCookie uu nu c1), normalize_value (rewriteCookie uu nu c2)]
     \<and> CHR '','' \<notin> set (normalize_value (rewriteCookie uu nu c1))
     \<and> CHR '','' \<notin> set (normalize_value (rewriteCookie uu nu c2))
     \<and> c1 @ '','' @ c2 \<notin> set (header_values (headers out) ''Set-Cookie'')"
proof -
  obtain out where
    out: "newResponseRewriter P upstreamHost newOrigin r = Some out"
    and v: "\<And>m. header_values (headers out) m =
       (if same_name ''Set-Cookie'' m then
          (case headers_get (headers r) ''Set-Cookie'' of
             None \<Rightarrow> []
           | Some sc \<Rightarrow> map (\<lambda>c. normalize_value (rewriteCookie uu nu c)) (split sc CHR '',''))
        else if same_name ''Location'' m then
          (case headers_get (headers r) ''Location'' of
             None \<Rightarrow> []
           | Some l \<Rightarrow> [normalize_value (replace l (origin uu) newOrigin)])
        else header_values (headers r) m)"
    by (rule newResponseRewriter_observe [OF assms(1-4)]) (rule that)
  from assms(5) have g: "headers_get (headers r) ''Set-Cookie'' = Some (c1 @ '','' @ c2)"
    by (rule headers_get_single)
  have sp: "split (c1 @ CHR '','' # c2) CHR '','' = [c1, c2]"
    using split_append_sep [OF assms(6), of c2] split_no_sep [OF assms(7)] by simp
  from v [of "''Set-Cookie''"] have hv: "header_values (headers out) ''Set-Cookie'' =
         [normalize_value (rewriteCookie uu nu c1), normalize_value (rewriteCookie uu nu c2)]"
    by (simp add: same_name_refl g sp)
  have n1: "CHR '','' \<notin> set (normalize_value (rewriteCookie uu nu c1))"
    using assms(6) by (rule rewriteCookie_no_comma)
  have n2: "CHR '','' \<notin> set (normalize_value (rewriteCookie uu nu c2))"
    using assms(7) by (rule rewriteCookie_no_comma)
  have "c1 @ '','' @ c2 \<notin> set (header_values (headers out) ''Set-Cookie'')"
  proof
    assume "c1 @ '','' @ c2 \<in> set (header_values (headers out) ''Set-Cookie'')"
    with hv have "c1 @ '','' @ c2 = normalize_value (rewriteCookie uu nu c1)
        \<or> c1 @ '','' @ c2 = normalize_value (rewriteCookie uu nu c2)"
      by simp
    moreover have "CHR '','' \<in> set (c1 @ '','' @ c2)" by simp
    ultimately show False using n1 n2 by metis
  qed
  with out hv n1 n2 show ?thesis by blast
qed

theorem multi_cookie_preservation_witness:
  "header_values (headers two_cookies_response) ''Set-Cookie''
     = [''session=abc; Domain=upstream.example.com'' @ '','' @ '' csrf=x; Domain=example.com'']
   \<and> CHR '','' \<notin> set ''session=abc; Domain=upstream.example.com''
   \<and> CHR '','' \<notin> set '' csrf=x; Domain=example.com''
   \<and> (\<exists>out. newResponseRewriter example_platform ''upstream.example.com'' ''https://app.example.org''
          two_cookies_response = Some out
        \<and> header_values (headers out) ''Set-Cookie'' =
            [''session=abc; Domain=app.example.org'', ''csrf=x; Domain=example.org''])"
proof -
  have h: "list_all (\<lambda>h. valid_value (snd h)) (headers two_cookies_response)"
    by (simp add: two_cookies_response_def valid_value_def)
  have g: "header_values (headers two_cookies_response) ''Set-Cookie''
     = [''session=abc; Domain=upstream.example.com'' @ '','' @ '' csrf=x; Domain=example.com'']"
    by code_simp
  have c: "CHR '','' \<notin> set ''session=abc; Domain=upstream.example.com''"
    "CHR '','' \<notin> set '' csrf=x; Domain=example.com''"
    by simp_all
  have e: "normalize_value (rewriteCookie upstream_url public_url ''session=abc; Domain=upstream.example.com'')
      = ''session=abc; Domain=app.example.org''"
    "normalize_value (rewriteCookie upstream_url public_url '' csrf=x; Domain=example.com'')
      = ''csrf=x; Domain=example.org''"
    by code_simp+
  from multi_cookie_preservation [OF example_parses h example_origin_valid(1) g c]
  have "\<exists>out. newResponseRewriter example_platform ''upstream.example.com'' ''https://app.example.org''
          two_cookies_response = Some out
        \<and> header_values (headers out) ''Set-Cookie'' =
            [''session=abc; Domain=app.example.org'', ''csrf=x; Domain=example.org'']"
    unfolding e by blast
  with g c show ?thesis by blast
qed

text \<open>
  C7 as the specification states it fails when one of the two cookies has a comma in an
  attribute value, as the date of \<^verbatim>\<open>Expires\<close> has: the split on every comma then
  yields three Set-Cookie headers for the two cookies.
\<close>

theorem multi_cookie_counterexample:
  "header_values (headers expires_two_cookies_response) ''Set-Cookie''
     = [''lang=en; Expires=Wed, 21 Oct 2026 07:28:00 GMT''
          @ '','' @ '' theme=dark; Domain=upstream.example.com'']
   \<and> newResponseRewriter example_platform ''upstream.example.com'' ''https://app.example.org''
       expires_two_cookies_response
     = Some \<lparr>status = 200,
              headers =
                [(''Set-Cookie'', ''lang=en; Expires=Wed''),
                 (''Set-Cookie'', ''21 Oct 2026 07:28:00 GMT''),
                 (''Set-Cookie'', ''theme=dark; Domain=app.example.org'')],
              body = None\<rparr>
   \<and> header_values
         [(''Set-Cookie'', ''lang=en; Expires=Wed''),
          (''Set-Cookie'', ''21 Oct 2026 07:28:00 GMT''),
          (''Set-Cookie'', ''theme=dark; Domain=app.example.org'')]
         ''Set-Cookie''
     = [''lang=en; Expires=Wed'', ''21 Oct 2026 07:28:00 GMT'',
        ''theme=dark; Domain=app.example.org'']
   \<and> length [''lang=en; Expires=Wed'', ''21 Oct 2026 07:28:00 GMT'',
        ''theme=dark; Domain=app.example.org''] \<noteq> 2"
  by code_simp

text \<open>
  C6, as amended.  Let the upstream response contain no occurrence of what the rewriter
  looks for: of the upstream origin in the Location value and in the decoded text body, of
  the URL-encoded upstream host and of its URL-encoded last two labels in the Set-Cookie
  values.  Let also no Set-Cookie value contain a comma or start with white space, let the
  Set-Cookie and Location values have no HTTP white space at their ends, and let a text
  body be one that decoding and encoding reproduce.  Then the rewritten response has the
  status and the body bytes of the upstream response, \<^verbatim>\<open>get\<close> returns the same value for
  every header name, and the Set-Cookie headers are the same, in number and in value.
\<close>

theorem rewrite_without_occurrence_is_identity:
  assumes "URL_parse P (''https://'' @ upstreamHost) = Some uu"
    and "URL_parse P newOrigin = Some nu"
    and "list_all (\<lambda>h. valid_value (snd h)) (headers r)"
    and "valid_value newOrigin"
    and cookies: "\<forall>c\<in>set (header_values (headers r) ''Set-Cookie'').
       CHR '','' \<notin> set c \<and> trimStart c = c \<and> normalize_value c = c
       \<and> \<not> sublist (encodeURIComponent (host uu)) c
       \<and> \<not> sublist (encodeURIComponent (lastTwoLabels uu)) c"
    and location: "\<forall>l. headers_get (headers r) ''Location'' = Some l \<longrightarrow>
       normalize_value l = l \<and> \<not> sublist (origin uu) l"
    and textual: "\<forall>b contentType. body r = Some b
       \<and> headers_get (headers r) ''Content-Type'' = Some contentType
       \<and> startsWith contentType ''text/'' \<longrightarrow>
       text_encode P (text_decode P b) = b \<and> \<not> sublist (origin uu) (text_decode P b)"
  shows "\<exists>out. newResponseRewriter P upstreamHost newOrigin r = Some out
     \<and> status out = status r
     \<and> body out = body r
     \<and> (\<forall>name. headers_get (headers out) name = headers_get (headers r) name)
     \<and> header_values (headers out) ''Set-Cookie'' = header_values (headers r) ''Set-Cookie''"
proof -
  obtain out where
    out: "newResponseRewriter P upstreamHost newOrigin r = Some out"
    and st: "status out = status r"
    and b: "body out = map_option (body_bytes P) (rewriteBody P r (origin uu) newOrigin)"
    and v: "\<And>m. header_values (headers out) m =
       (if same_name ''Set-Cookie'' m then
          (case headers_get (headers r) ''Set-Cookie'' of
             None \<Rightarrow> []
           | Some sc \<Rightarrow> map (\<lambda>c. normalize_value (rewriteCookie uu nu c)) (split sc CHR '',''))
        else if same_name ''Location'' m then
          (case headers_get (headers r) ''Location'' of
             None \<Rightarrow> []
           | Some l \<Rightarrow> [normalize_value (replace l (origin uu) newOrigin)])
        else header_values (headers r) m)"
    by (rule newResponseRewriter_observe [OF assms(1-4)]) (rule that)
  have body: "body out = body r"
    using textual unfolding b rewriteBody_bytes
    by (auto simp: replaceAll_absent split: option.splits)
  have ck: "header_values (headers out) m = header_values (headers r) m"
    if "same_name ''Set-Cookie'' m" for m
    using that v [of m] cookies_unchanged [OF cookies, of nu]
      header_values_same_name [OF that, of "headers r"]
    by simp
  have lc: "headers_get (headers out) m = headers_get (headers r) m"
    if n: "\<not> same_name ''Set-Cookie'' m" and l: "same_name ''Location'' m" for m
  proof (cases "headers_get (headers r) ''Location''")
    case None
    with n l v [of m] have "header_values (headers out) m = []" by simp
    moreover from None have "header_values (headers r) m = []"
      using header_values_same_name [OF l, of "headers r"] by (simp add: headers_get_None_values)
    ultimately show ?thesis by (simp add: headers_get_def)
  next
    case (Some loc)
    with location have "normalize_value loc = loc" "\<not> sublist (origin uu) loc" by simp_all
    then have "normalize_value (replace loc (origin uu) newOrigin) = loc"
      by (simp add: replace_absent)
    with Some n l v [of m] have "header_values (headers out) m = [loc]" by simp
    then have "headers_get (headers out) m = Some loc" by (rule headers_get_single)
    moreover from Some have "headers_get (headers r) m = Some loc"
      using headers_get_same_name [OF l, of "headers r"] by simp
    ultimately show ?thesis by simp
  qed
  have "headers_get (headers out) name = headers_get (headers r) name" for name
  proof (cases "same_name ''Set-Cookie'' name")
    case True
    then show ?thesis by (simp add: headers_get_def ck)
  next
    case False
    show ?thesis
    proof (cases "same_name ''Location'' name")
      case True
      with False show ?thesis by (rule lc)
    next
      case l: False
      with False v [of name] show ?thesis by (simp add: headers_get_def)
    qed
  qed
  with out st body ck [OF same_name_refl] show ?thesis by blast
qed

theorem rewrite_without_occurrence_witness:
  "header_values (headers plain_response) ''Set-Cookie'' = [''lang=en; Path=/'', ''theme=dark'']
   \<and> headers_get (headers plain_response) ''Location'' = Some ''https://other.example/''
   \<and> headers_get (headers plain_response) ''Content-Type'' = Some ''text/plain''
   \<and> (\<exists>out. newResponseRewriter example_platform ''upstream.example.com'' ''https://app.example.org''
          plain_response = Some out
        \<and> status out = 200
        \<and> body out = Some ''hello''
        \<and> headers_get (headers out) ''Location'' = Some ''https://other.example/''
        \<and> headers_get (headers out) ''Content-Type'' = Some ''text/plain''
        \<and> header_values (headers out) ''Set-Cookie'' = [''lang=en; Path=/'', ''theme=dark''])"
proof -
  have h: "list_all (\<lambda>h. valid_value (snd h)) (headers plain_response)"
    by (simp add: plain_response_def valid_value_def)
  have sc: "header_values (headers plain_response) ''Set-Cookie'' = [''lang=en; Path=/'', ''theme=dark'']"
    and lo: "headers_get (headers plain_response) ''Location'' = Some ''https://other.example/''"
    and ct: "headers_get (headers plain_response) ''Content-Type'' = Some ''text/plain''"
    by code_simp+
  have st: "status plain_response = 200" and bo: "body plain_response = Some ''hello''"
    by (simp_all add: plain_response_def)
  have c: "\<forall>c\<in>set (header_values (headers plain_response) ''Set-Cookie'').
       CHR '','' \<notin> set c \<and> trimStart c = c \<and> normalize_value c = c
       \<and> \<not> sublist (encodeURIComponent (host upstream_url)) c
       \<and> \<not> sublist (encodeURIComponent (lastTwoLabels upstream_url)) c"
    by code_simp
  have "normalize_value ''https://other.example/'' = ''https://other.example/''
       \<and> \<not> sublist (origin upstream_url) ''https://other.example/''"
    by code_simp
  with lo have l: "\<forall>l. headers_get (headers plain_response) ''Location'' = Some l \<longrightarrow>
       normalize_value l = l \<and> \<not> sublist (origin upstream_url) l"
    by simp
  have "text_encode example_platform (text_decode example_platform ''hello'') = ''hello''
       \<and> \<not> sublist (origin upstream_url) (text_decode example_platform ''hello'')"
    by code_simp
  with bo have t: "\<forall>b contentType. body plain_response = Some b
       \<and> headers_get (headers plain_response) ''Content-Type'' = Some contentType
       \<and> startsWith contentType ''text/'' \<longrightarrow>
       text_encode example_platform (text_decode example_platform b) = b
       \<and> \<not> sublist (origin upstream_url) (text_decode example_platform b)"
    by simp
  from rewrite_without_occurrence_is_identity
         [OF example_parses h example_origin_valid(1) c l t]
  obtain out where
    "newResponseRewriter example_platform ''upstream.example.com'' ''https://app.example.org''
          plain_response = Some out"
    "status out = status plain_response" "body out = body plain_response"
    "\<forall>name. headers_get (headers out) name = headers_get (headers plain_response) name"
    "header_values (headers out) ''Set-Cookie'' = header_values (headers plain_response) ''Set-Cookie''"
    by blast
  with sc lo ct st bo show ?thesis by simp
qed

text \<open>
  C6 as the specification states it fails on a cookie with a comma in an attribute value,
  as the date of \<^verbatim>\<open>Expires\<close> has: the value contains neither the upstream host nor
  its last two labels, and still the one Set-Cookie header comes back as two.  The other
  conditions of the amended statement are needed as well: a cookie that starts with a
  vertical tab loses it to \<^verbatim>\<open>trimStart\<close>, and a text body that starts with a byte
  order mark loses the mark to the decoder.
\<close>

theorem rewrite_without_occurrence_counterexample:
  "header_values (headers expires_cookie_response) ''Set-Cookie''
     = [''lang=en; Expires=Wed, 21 Oct 2026 07:28:00 GMT'']
   \<and> \<not> sublist ''upstream.example.com'' ''lang=en; Expires=Wed, 21 Oct 2026 07:28:00 GMT''
   \<and> \<not> sublist ''example.com'' ''lang=en; Expires=Wed, 21 Oct 2026 07:28:00 GMT''
   \<and> newResponseRewriter example_platform ''upstream.example.com'' ''https://app.example.org''
       expires_cookie_response
     = Some \<lparr>status = 200,
              headers =
                [(''Set-Cookie'', ''lang=en; Expires=Wed''),
                 (''Set-Cookie'', ''21 Oct 2026 07:28:00 GMT'')],
              body = None\<rparr>
   \<and> header_values
         [(''Set-Cookie'', ''lang=en; Expires=Wed''), (''Set-Cookie'', ''21 Oct 2026 07:28:00 GMT'')]
         ''Set-Cookie''
     = [''lang=en; Expires=Wed'', ''21 Oct 2026 07:28:00 GMT'']
   \<and> newResponseRewriter example_platform ''upstream.example.com'' ''https://app.example.org''
       vt_cookie_response
     = Some \<lparr>status = 200, headers = [(''Set-Cookie'', ''lang=en'')], body = None\<rparr>
   \<and> newResponseRewriter bom_platform ''upstream.example.com'' ''https://app.example.org''
       bom_response
     = Some \<lparr>status = 200, headers = [(''Content-Type'', ''text/plain'')], body = Some ''hello''\<rparr>"
  by code_simp

end
